theory Spec2Isabelle
  imports Complex_Main "HOL-Library.Log_Nat"
begin

section \<open>Bulk image optimizer: the batch optimization pipeline of \<^verbatim>\<open>src/main.py\<close>\<close>

text \<open>
  The development follows \<^verbatim>\<open>ImageOptimizerApp\<close>: the arithmetic of the resize step,
  the derivation of the output path, the per-image transform \<^verbatim>\<open>optimize_image\<close>, the
  capture of the settings in \<^verbatim>\<open>start_optimization\<close>, and the worker loop
  \<^verbatim>\<open>process_images\<close> with its cancellation flag.  Pillow, Tk, the clock, the standard
  output and the file system are not part of the repository: their operations are
  parameters of the model.
  Python \<^verbatim>\<open>int\<close>s are \<open>int\<close>; a string is a list of characters below U+0100, each
  \<open>char\<close> standing for the code point of its number; paths follow \<^verbatim>\<open>posixpath\<close>.
\<close>

subsection \<open>Exceptions\<close>

text \<open>
  Every constructor stands for a subclass of Python's \<^verbatim>\<open>Exception\<close>; \<open>Other\<close> carries the
  class name of any further one a library may raise.  A computation that may raise has a
  result of type \<open>py_exc + 'a\<close>.
\<close>

datatype py_exc =
    ZeroDivisionError
  | OverflowError
  | ValueError
  | IndexError
  | OSError
  | UnicodeEncodeError
  | Other string

subsection \<open>Python's float arithmetic\<close>

text \<open>
  A Python \<^verbatim>\<open>float\<close> is an IEEE 754 binary64 number; a finite one is modelled by the
  rational number it denotes.  \<open>ilog2 x\<close> is the binary exponent of a positive \<open>x\<close>, and
  \<open>binary64 x\<close> the nearest number with a 53-bit significand (ties to even, gradual
  underflow below \<open>2 powi - 1022\<close>).  \<open>out_of_range\<close> holds of a rounded value of
  magnitude \<open>2 ^ 1024\<close> or more, which no finite float denotes.
\<close>

definition ilog2 :: "rat \<Rightarrow> int" where
  "ilog2 x = (let (p, q) = quotient_of x; k = bitlen p - bitlen q
              in if 2 powi k \<le> x then k else k - 1)"

definition round_half_even :: "rat \<Rightarrow> int" where
  "round_half_even x =
     (let f = \<lfloor>x\<rfloor>; d = x - of_int f
      in if d < 1 / 2 then f else if 1 / 2 < d then f + 1 else if even f then f else f + 1)"

definition binary64 :: "rat \<Rightarrow> rat" where
  "binary64 x =
     (if x = 0 then 0
      else let e = max (ilog2 \<bar>x\<bar> - 52) (- 1074)
           in of_int (round_half_even (x / 2 powi e)) * 2 powi e)"

definition out_of_range :: "rat \<Rightarrow> bool" where
  "out_of_range x \<longleftrightarrow> x \<noteq> 0 \<and> 1024 \<le> ilog2 \<bar>x\<bar>"

text \<open>
  \<^verbatim>\<open>a / b\<close> on two \<^verbatim>\<open>int\<close>s: CPython rounds the exact quotient correctly and raises
  \<^verbatim>\<open>OverflowError\<close> when the rounded quotient is out of range.
\<close>

definition int_truediv :: "int \<Rightarrow> int \<Rightarrow> py_exc + rat" where
  "int_truediv a b =
     (if b = 0 then Inl ZeroDivisionError
      else let q = binary64 (of_int a / of_int b)
           in if out_of_range q then Inl OverflowError else Inr q)"

text \<open>\<^verbatim>\<open>int(x)\<close> on a finite float truncates towards zero.\<close>

definition py_int :: "rat \<Rightarrow> int" where
  "py_int x = (if 0 \<le> x then \<lfloor>x\<rfloor> else \<lceil>x\<rceil>)"

text \<open>
  \<^verbatim>\<open>int(n * r)\<close> for an \<^verbatim>\<open>int\<close> \<open>n\<close> and a float \<open>r\<close>: \<open>n\<close> is converted to a float
  (\<^verbatim>\<open>OverflowError\<close> when it is too large), the product is rounded, and \<^verbatim>\<open>int\<close> truncates
  it; a product that overflows is \<^verbatim>\<open>inf\<close>, on which \<^verbatim>\<open>int\<close> raises \<^verbatim>\<open>OverflowError\<close>.
\<close>

definition int_of_product :: "int \<Rightarrow> rat \<Rightarrow> py_exc + int" where
  "int_of_product n r =
     (let x = binary64 (of_int n)
      in if out_of_range x then Inl OverflowError
         else let p = binary64 (x * r)
              in if out_of_range p then Inl OverflowError else Inr (py_int p))"

subsection \<open>The resize step of \<^verbatim>\<open>optimize_image\<close>\<close>

text \<open>
  \<^verbatim>\<open>
  width_ratio = max_width / original_width
  height_ratio = max_height / original_height
  ratio = min(width_ratio, height_ratio)
  new_width = int(original_width * ratio)
  new_height = int(original_height * ratio)
  \<close>
\<close>

definition new_size :: "int \<Rightarrow> int \<Rightarrow> int \<Rightarrow> int \<Rightarrow> py_exc + int \<times> int" where
  "new_size original_width original_height max_width max_height =
     (case int_truediv max_width original_width of
        Inl e \<Rightarrow> Inl e
      | Inr width_ratio \<Rightarrow>
     (case int_truediv max_height original_height of
        Inl e \<Rightarrow> Inl e
      | Inr height_ratio \<Rightarrow>
     (let ratio = min width_ratio height_ratio in
      case int_of_product original_width ratio of
        Inl e \<Rightarrow> Inl e
      | Inr new_width \<Rightarrow>
     (case int_of_product original_height ratio of
        Inl e \<Rightarrow> Inl e
      | Inr new_height \<Rightarrow> Inr (new_width, new_height)))))"

text \<open>
  The guard around it: \<open>None\<close> when the image is left as it is, \<open>Some\<close> of the size passed
  to \<^verbatim>\<open>img.resize\<close> otherwise.  The first three arguments are \<^verbatim>\<open>settings["resize"]\<close>,
  \<^verbatim>\<open>settings["max_width"]\<close> and \<^verbatim>\<open>settings["max_height"]\<close>, the last is \<^verbatim>\<open>img.size\<close>.
\<close>

definition resize_target :: "bool \<Rightarrow> int \<Rightarrow> int \<Rightarrow> int \<times> int \<Rightarrow> py_exc + (int \<times> int) option" where
  "resize_target resize_enabled max_width max_height sz =
     (if resize_enabled then
        (let (original_width, original_height) = sz in
         if original_width > max_width \<or> original_height > max_height then
           (case new_size original_width original_height max_width max_height of
              Inl e \<Rightarrow> Inl e
            | Inr new \<Rightarrow> Inr (Some new))
         else Inr None)
      else Inr None)"



subsection \<open>Strings and paths\<close>

text \<open>
  \<^verbatim>\<open>str.rfind\<close>, slices with non-negative bounds, \<^verbatim>\<open>str.endswith\<close>, \<^verbatim>\<open>str.lower\<close> and
  \<^verbatim>\<open>str.upper\<close> on ASCII letters, and \<^verbatim>\<open>str\<close> of an \<^verbatim>\<open>int\<close>.  The code applies
  \<^verbatim>\<open>upper\<close> and \<^verbatim>\<open>lower\<close> to the formats of the read-only combobox, which are ASCII,
  and \<^verbatim>\<open>lower\<close> to a file name of which it then tests an ASCII suffix; no character
  below U+0100 other than an ASCII letter has an ASCII lower case.
\<close>

definition rfind :: "string \<Rightarrow> char \<Rightarrow> int" where
  "rfind p c =
     (if c \<in> set p then int (length p) - 1 - int (length (takeWhile (\<lambda>x. x \<noteq> c) (rev p)))
      else - 1)"

definition slice_from :: "string \<Rightarrow> int \<Rightarrow> string" where
  "slice_from p i = drop (nat i) p"

definition slice_to :: "string \<Rightarrow> int \<Rightarrow> string" where
  "slice_to p i = take (nat i) p"

definition endswith :: "string \<Rightarrow> string \<Rightarrow> bool" where
  "endswith s suffix \<longleftrightarrow> length suffix \<le> length s \<and> drop (length s - length suffix) s = suffix"

definition lower_char :: "char \<Rightarrow> char" where
  "lower_char c =
     (case map_of (zip ''ABCDEFGHIJKLMNOPQRSTUVWXYZ'' ''abcdefghijklmnopqrstuvwxyz'') c of
        Some l \<Rightarrow> l
      | None \<Rightarrow> c)"

definition upper_char :: "char \<Rightarrow> char" where
  "upper_char c =
     (case map_of (zip ''abcdefghijklmnopqrstuvwxyz'' ''ABCDEFGHIJKLMNOPQRSTUVWXYZ'') c of
        Some u \<Rightarrow> u
      | None \<Rightarrow> c)"

definition lower :: "string \<Rightarrow> string" where
  "lower s = map lower_char s"

definition upper :: "string \<Rightarrow> string" where
  "upper s = map upper_char s"

definition digit :: "nat \<Rightarrow> char" where
  "digit n = ''0123456789'' ! n"

fun str_nat :: "nat \<Rightarrow> string" where
  "str_nat n = (if n < 10 then [digit n] else str_nat (n div 10) @ [digit (n mod 10)])"

definition str_int :: "int \<Rightarrow> string" where
  "str_int i = (if i < 0 then CHR ''-'' # str_nat (nat (- i)) else str_nat (nat i))"

text \<open>
  \<^verbatim>\<open>str.isdigit\<close> holds of a non-empty string of characters of the Unicode types digit
  and decimal: below U+0100 these are the ten ASCII digits and the superscripts two
  (U+00B2), three (U+00B3) and one (U+00B9).  \<^verbatim>\<open>int\<close> of such a string is its decimal
  value when every character is a decimal digit, and raises \<^verbatim>\<open>ValueError\<close> on a
  superscript.  It also raises \<^verbatim>\<open>ValueError\<close> on more digits than the interpreter's
  \<^verbatim>\<open>sys.get_int_max_str_digits()\<close>, which is 4300 by default from CPython 3.11 on and 0
  where there is no limit; CPython tests the limit on strings of more than 640 digits,
  leading zeros included.
\<close>

definition digit_value :: "char \<Rightarrow> int" where
  "digit_value c =
     (case map_of (zip ''0123456789'' [0, 1, 2, 3, 4, 5, 6, 7, 8, 9]) c of
        Some v \<Rightarrow> v
      | None \<Rightarrow> 0)"

definition isdigit :: "string \<Rightarrow> bool" where
  "isdigit s \<longleftrightarrow>
     s \<noteq> [] \<and> list_all (\<lambda>c. c \<in> set (''0123456789'' @ [CHR 0xB2, CHR 0xB3, CHR 0xB9])) s"

definition int_of_digits :: "string \<Rightarrow> int" where
  "int_of_digits s = foldl (\<lambda>acc c. 10 * acc + digit_value c) 0 s"

definition int_of_isdigit_str :: "nat \<Rightarrow> string \<Rightarrow> py_exc + int" where
  "int_of_isdigit_str max_str_digits s =
     (if \<not> list_all (\<lambda>c. c \<in> set ''0123456789'') s then Inl ValueError
      else if 640 < length s \<and> 0 < max_str_digits \<and> max_str_digits < length s then Inl ValueError
      else Inr (int_of_digits s))"

text \<open>
  \<^verbatim>\<open>os.path.basename\<close>, \<^verbatim>\<open>os.path.dirname\<close>, \<^verbatim>\<open>os.path.splitext\<close> and
  \<^verbatim>\<open>os.path.join\<close> of two components, as \<^verbatim>\<open>posixpath\<close> defines them.  The loop of
  \<^verbatim>\<open>splitext\<close> that skips the leading dots of the file name is \<open>only_dots\<close>.
\<close>

definition basename :: "string \<Rightarrow> string" where
  "basename p = (let i = rfind p CHR ''/'' + 1 in slice_from p i)"

definition dirname :: "string \<Rightarrow> string" where
  "dirname p =
     (let i = rfind p CHR ''/'' + 1;
          head = slice_to p i
      in if head \<noteq> [] \<and> head \<noteq> replicate (length head) CHR ''/''
         then rev (dropWhile (\<lambda>c. c = CHR ''/'') (rev head))
         else head)"

fun only_dots :: "string \<Rightarrow> bool" where
  "only_dots [] = True"
| "only_dots (c # cs) = (if c \<noteq> CHR ''.'' then False else only_dots cs)"

definition splitext :: "string \<Rightarrow> string \<times> string" where
  "splitext p =
     (let sepIndex = rfind p CHR ''/'';
          dotIndex = rfind p CHR ''.''
      in if dotIndex > sepIndex \<and>
            \<not> only_dots (slice_to (slice_from p (sepIndex + 1)) (dotIndex - (sepIndex + 1)))
         then (slice_to p dotIndex, slice_from p dotIndex)
         else (p, []))"

definition join :: "string \<Rightarrow> string \<Rightarrow> string" where
  "join a b =
     (if b \<noteq> [] \<and> hd b = CHR ''/'' then b
      else if a = [] \<or> last a = CHR ''/'' then a @ b
      else a @ ''/'' @ b)"

subsection \<open>Settings and the output path\<close>

text \<open>The \<^verbatim>\<open>settings\<close> dictionary built by \<^verbatim>\<open>start_optimization\<close>.\<close>

record settings =
  jpg_quality :: int
  png_compression :: int
  resize :: bool
  max_width :: int
  max_height :: int
  convert_format :: string
  preserve_names :: bool
  output_dir :: string

text \<open>
  The file name and path computed by \<^verbatim>\<open>optimize_image\<close>; \<open>now\<close> is the value of
  \<^verbatim>\<open>time.time()\<close> read in the branch that builds a timestamped name.
\<close>

definition output_filename :: "settings \<Rightarrow> string \<Rightarrow> rat \<Rightarrow> string" where
  "output_filename settings file_path now =
     (if preserve_names settings then
        (let base_name = basename file_path;
             (file_name, original_ext) = splitext base_name;
             new_ext = (if convert_format settings \<noteq> ''original''
                        then ''.'' @ lower (convert_format settings)
                        else original_ext)
         in file_name @ new_ext)
      else
        (let timestamp = py_int now;
             file_name = basename file_path;
             (name_without_ext, _) = splitext file_name;
             ext = (if convert_format settings \<noteq> ''original''
                    then ''.'' @ lower (convert_format settings)
                    else snd (splitext file_path))
         in name_without_ext @ ''_optimized_'' @ str_int timestamp @ ext))"

definition output_path :: "settings \<Rightarrow> string \<Rightarrow> rat \<Rightarrow> string" where
  "output_path settings file_path now =
     join (output_dir settings) (output_filename settings file_path now)"

text \<open>
  The naming rule in the words of the specification: the base is the file name of the
  source path without its extension, the extension is the conversion extension when the
  target format is not \<open>Original\<close> and the original extension otherwise.
\<close>

definition spec_outputFileName :: "settings \<Rightarrow> string \<Rightarrow> int \<Rightarrow> string" where
  "spec_outputFileName settings sourcePath unixTimestamp =
     (let base = fst (splitext (basename sourcePath));
          extension = (if convert_format settings \<noteq> ''original''
                       then ''.'' @ lower (convert_format settings)
                       else snd (splitext (basename sourcePath)))
      in if preserve_names settings then base @ extension
         else base @ ''_optimized_'' @ str_int unixTimestamp @ extension)"

subsection \<open>Pillow images and the library interface\<close>

text \<open>
  A Pillow image carries its \<^verbatim>\<open>mode\<close>, \<^verbatim>\<open>size\<close> and \<^verbatim>\<open>format\<close> attributes and its pixel
  data, of an arbitrary type \<open>'px\<close>.  What Pillow computes is a parameter: opening a file,
  the pixels of a resized image, of a new image and of a paste, the bands of an image, and
  the outcome of a save.  \<open>time_time\<close> is the reading of the clock, \<open>exc_str e\<close> the
  text \<^verbatim>\<open>str(e)\<close> of an exception, and \<open>stdout_print\<close> what \<^verbatim>\<open>print\<close> does with a text:
  it returns, or it raises, as it does with \<^verbatim>\<open>UnicodeEncodeError\<close> on a character that
  the encoding of \<^verbatim>\<open>sys.stdout\<close> does not have.
\<close>

record 'px image =
  im_mode :: string
  im_size :: "int \<times> int"
  im_format :: "string option"
  im_data :: 'px

record save_args =
  fmt :: string
  quality :: "int option"
  optimize :: "bool option"
  compress_level :: "int option"
  encoder_method :: "int option"

record 'px pil =
  pil_open :: "string \<Rightarrow> py_exc + 'px image"
  pil_resize :: "'px image \<Rightarrow> int \<times> int \<Rightarrow> py_exc + 'px"
  pil_new :: "string \<Rightarrow> int \<times> int \<Rightarrow> int \<times> int \<times> int \<Rightarrow> py_exc + 'px"
  pil_split :: "'px image \<Rightarrow> py_exc + 'px image list"
  pil_paste :: "'px image \<Rightarrow> 'px image \<Rightarrow> 'px image option \<Rightarrow> py_exc + 'px"
  pil_save :: "'px image \<Rightarrow> string \<Rightarrow> save_args \<Rightarrow> py_exc option"
  time_time :: rat
  exc_str :: "py_exc \<Rightarrow> string"
  stdout_print :: "string \<Rightarrow> py_exc option"

text \<open>
  \<^verbatim>\<open>img.resize(size, Image.LANCZOS)\<close> returns a new image of that size and of the same
  mode, whose \<^verbatim>\<open>format\<close> is \<^verbatim>\<open>None\<close>; \<^verbatim>\<open>Image.new(mode, size, color)\<close> returns an image of
  that mode and size, whose \<^verbatim>\<open>format\<close> is \<^verbatim>\<open>None\<close>; \<^verbatim>\<open>background.paste(img, mask=m)\<close>
  changes the pixels of \<^verbatim>\<open>background\<close> only; \<^verbatim>\<open>bands[3]\<close> raises \<^verbatim>\<open>IndexError\<close> on fewer
  than four bands.  Each of the calls into Pillow may raise.
\<close>

definition image_resize :: "'px pil \<Rightarrow> 'px image \<Rightarrow> int \<times> int \<Rightarrow> py_exc + 'px image" where
  "image_resize lib img new =
     (case pil_resize lib img new of
        Inl e \<Rightarrow> Inl e
      | Inr d \<Rightarrow> Inr (img\<lparr>im_size := new, im_format := None, im_data := d\<rparr>))"

definition image_new :: "'px pil \<Rightarrow> string \<Rightarrow> int \<times> int \<Rightarrow> int \<times> int \<times> int \<Rightarrow> py_exc + 'px image" where
  "image_new lib m sz color =
     (case pil_new lib m sz color of
        Inl e \<Rightarrow> Inl e
      | Inr d \<Rightarrow> Inr \<lparr>im_mode = m, im_size = sz, im_format = None, im_data = d\<rparr>)"

definition image_paste :: "'px pil \<Rightarrow> 'px image \<Rightarrow> 'px image \<Rightarrow> 'px image option \<Rightarrow> py_exc + 'px image" where
  "image_paste lib background img paste_mask =
     (case pil_paste lib background img paste_mask of
        Inl e \<Rightarrow> Inl e
      | Inr d \<Rightarrow> Inr (background\<lparr>im_data := d\<rparr>))"

definition band3 :: "'px pil \<Rightarrow> 'px image \<Rightarrow> py_exc + 'px image" where
  "band3 lib img =
     (case pil_split lib img of
        Inl e \<Rightarrow> Inl e
      | Inr bands \<Rightarrow> if 3 < length bands then Inr (bands ! 3) else Inl IndexError)"

definition image_save :: "'px pil \<Rightarrow> 'px image \<Rightarrow> string \<Rightarrow> save_args \<Rightarrow> py_exc + unit" where
  "image_save lib img path args =
     (case pil_save lib img path args of Some e \<Rightarrow> Inl e | None \<Rightarrow> Inr ())"

subsection \<open>The per-image transform \<^verbatim>\<open>optimize_image\<close>\<close>

text \<open>Lines 681 to 696: the resize, when enabled and needed.\<close>

definition resize_step :: "'px pil \<Rightarrow> settings \<Rightarrow> 'px image \<Rightarrow> py_exc + 'px image" where
  "resize_step lib settings img =
     (case resize_target (resize settings) (max_width settings) (max_height settings) (im_size img) of
        Inl e \<Rightarrow> Inl e
      | Inr None \<Rightarrow> Inr img
      | Inr (Some new) \<Rightarrow> image_resize lib img new)"

text \<open>Lines 698 to 706: the output format, read from the image after the resize step.\<close>

definition output_format_of :: "settings \<Rightarrow> 'px image \<Rightarrow> string" where
  "output_format_of settings img =
     (if convert_format settings \<noteq> ''original'' then upper (convert_format settings)
      else case im_format img of None \<Rightarrow> ''PNG'' | Some original_format \<Rightarrow> original_format)"

text \<open>
  Lines 738 to 743: an image of mode RGBA, LA or P is replaced by a white RGB background
  of the same size with the image pasted on it; the mask is
  \<^verbatim>\<open>img.split()[3] if img.mode == "RGBA" else None\<close>.
\<close>

definition white_background :: "'px pil \<Rightarrow> 'px image \<Rightarrow> py_exc + 'px image" where
  "white_background lib img = image_new lib ''RGB'' (im_size img) (255, 255, 255)"

definition paste_mask :: "'px pil \<Rightarrow> 'px image \<Rightarrow> py_exc + 'px image option" where
  "paste_mask lib img =
     (if im_mode img = ''RGBA''
      then (case band3 lib img of Inl e \<Rightarrow> Inl e | Inr b \<Rightarrow> Inr (Some b))
      else Inr None)"

definition jpeg_background :: "'px pil \<Rightarrow> 'px image \<Rightarrow> py_exc + 'px image" where
  "jpeg_background lib img =
     (if im_mode img = ''RGBA'' \<or> im_mode img = ''LA'' \<or> im_mode img = ''P'' then
        (case white_background lib img of
           Inl e \<Rightarrow> Inl e
         | Inr background \<Rightarrow>
        (case paste_mask lib img of
           Inl e \<Rightarrow> Inl e
         | Inr m \<Rightarrow> image_paste lib background img m))
      else Inr img)"

text \<open>Lines 736 to 771: the save, with the parameters of each format.\<close>

definition jpeg_args :: "settings \<Rightarrow> save_args" where
  "jpeg_args settings =
     \<lparr>fmt = ''JPEG'', quality = Some (jpg_quality settings), optimize = Some True,
      compress_level = None, encoder_method = None\<rparr>"

definition save_step :: "'px pil \<Rightarrow> settings \<Rightarrow> 'px image \<Rightarrow> string \<Rightarrow> string \<Rightarrow> py_exc + unit" where
  "save_step lib settings img output_format path =
     (if output_format = ''JPEG'' \<or> output_format = ''JPG'' then
        (case jpeg_background lib img of
           Inl e \<Rightarrow> Inl e
         | Inr flat \<Rightarrow> image_save lib flat path (jpeg_args settings))
      else if output_format = ''PNG'' then
        image_save lib img path
          \<lparr>fmt = ''PNG'', quality = None, optimize = Some True,
           compress_level = Some (png_compression settings), encoder_method = None\<rparr>
      else if output_format = ''WEBP'' then
        image_save lib img path
          \<lparr>fmt = ''WEBP'', quality = Some (jpg_quality settings), optimize = None,
           compress_level = None, encoder_method = Some 6\<rparr>
      else
        image_save lib img path
          \<lparr>fmt = output_format, quality = None, optimize = None,
           compress_level = None, encoder_method = None\<rparr>)"

text \<open>
  The body of the \<^verbatim>\<open>try\<close> block, and the function with its handler
  \<^verbatim>\<open>except Exception as e\<close>, which prints \<^verbatim>\<open>f"Error optimizing {file_path}: {e}"\<close> and
  then returns \<^verbatim>\<open>False\<close>.  An exception of the \<^verbatim>\<open>print\<close> leaves the function.
\<close>

definition optimize_image_try :: "'px pil \<Rightarrow> string \<Rightarrow> settings \<Rightarrow> py_exc + bool" where
  "optimize_image_try lib file_path settings =
     (case pil_open lib file_path of
        Inl e \<Rightarrow> Inl e
      | Inr opened \<Rightarrow>
     (case resize_step lib settings opened of
        Inl e \<Rightarrow> Inl e
      | Inr img \<Rightarrow>
     (let output_format = output_format_of settings img;
          path = output_path settings file_path (time_time lib)
      in case save_step lib settings img output_format path of
           Inl e \<Rightarrow> Inl e
         | Inr _ \<Rightarrow> Inr True)))"

definition optimize_image :: "'px pil \<Rightarrow> string \<Rightarrow> settings \<Rightarrow> py_exc + bool" where
  "optimize_image lib file_path settings =
     (case optimize_image_try lib file_path settings of
        Inl e \<Rightarrow>
          (case stdout_print lib (''Error optimizing '' @ file_path @ '': '' @ exc_str lib e) of
             Some raised \<Rightarrow> Inl raised
           | None \<Rightarrow> Inr False)
      | Inr success \<Rightarrow> Inr success)"

subsection \<open>The application state and the control context\<close>

text \<open>
  The fields of \<^verbatim>\<open>ImageOptimizerApp\<close> that the pipeline reads or writes.  Python lists are
  objects: \<open>selected_files\<close> is a reference into \<open>heap\<close>, so that the list passed to the
  worker thread and the list held by the application can be one object.  \<open>threads\<close> are
  the worker threads started so far, each with the arguments of \<^verbatim>\<open>process_images\<close>;
  \<open>dialogs\<close> are the message boxes shown so far.
\<close>

datatype widget_state = NORMAL | DISABLED

datatype dialog =
    showwarning string string
  | showerror string string
  | showinfo string string

record app =
  heap :: "nat \<Rightarrow> string list"
  next_ref :: nat
  selected_files :: nat
  output_directory :: string
  processing :: bool
  threads :: "(nat \<times> settings) list"
  file_count_var :: string
  jpg_quality_var :: int
  png_compression_var :: int
  resize_enabled :: bool
  max_width_var :: string
  max_height_var :: string
  convert_format_var :: string
  output_dir_var :: string
  preserve_names_var :: bool
  progress_var :: rat
  status_var :: string
  optimize_btn :: widget_state
  cancel_btn :: widget_state
  dialogs :: "dialog list"

text \<open>The state built by \<^verbatim>\<open>__init__\<close> and \<^verbatim>\<open>create_ui\<close>, with the values of \<^verbatim>\<open>DEFAULTS\<close>.\<close>

definition init_app :: app where
  "init_app =
     \<lparr>heap = (\<lambda>r. []), next_ref = 1, selected_files = 0, output_directory = [],
      processing = False, threads = [], file_count_var = ''No files selected'',
      jpg_quality_var = 85, png_compression_var = 6, resize_enabled = False,
      max_width_var = ''1920'', max_height_var = ''1080'', convert_format_var = ''original'',
      output_dir_var = [], preserve_names_var = True, progress_var = 0,
      status_var = ''Ready'', optimize_btn = NORMAL, cancel_btn = DISABLED, dialogs = []\<rparr>"

definition update_files_list :: "app \<Rightarrow> app" where
  "update_files_list app =
     app\<lparr>file_count_var := str_int (int (length (heap app (selected_files app)))) @ '' files selected''\<rparr>"

text \<open>
  \<^verbatim>\<open>select_files\<close> binds \<^verbatim>\<open>selected_files\<close> to a new list, \<^verbatim>\<open>clear_selection\<close> to a new
  empty list; \<^verbatim>\<open>select_folder\<close> extends the list that \<^verbatim>\<open>selected_files\<close> refers to, in
  place, by the files that \<^verbatim>\<open>os.walk\<close> finds and whose lowered name ends in one of
  \<^verbatim>\<open>FORMATS["file_extensions"]\<close>.  The arguments are what the dialogs and the walk return.
\<close>

definition select_files :: "string list \<Rightarrow> app \<Rightarrow> app" where
  "select_files files app =
     (if files \<noteq> [] then
        update_files_list
          (app\<lparr>heap := (heap app)(next_ref app := files), selected_files := next_ref app,
               next_ref := Suc (next_ref app)\<rparr>)
      else app)"

definition file_extensions :: "string list" where
  "file_extensions = [''.jpg'', ''.jpeg'', ''.png'', ''.gif'', ''.bmp'', ''.tiff'', ''.webp'']"

definition found_images :: "(string \<times> string list) list \<Rightarrow> string list" where
  "found_images walk =
     concat (map (\<lambda>(root, files).
        map (join root) (filter (\<lambda>file. list_ex (endswith (lower file)) file_extensions) files)) walk)"

definition select_folder :: "string \<Rightarrow> (string \<times> string list) list \<Rightarrow> app \<Rightarrow> app" where
  "select_folder folder walk app =
     (if folder \<noteq> [] then
        (let new_files = found_images walk in
         if new_files \<noteq> [] then
           update_files_list
             (app\<lparr>heap := (heap app)(selected_files app := heap app (selected_files app) @ new_files)\<rparr>)
         else
           app\<lparr>dialogs := dialogs app @
                 [showinfo ''No Images Found'' ''No image files were found in the selected folder.'']\<rparr>)
      else app)"

definition clear_selection :: "app \<Rightarrow> app" where
  "clear_selection app =
     app\<lparr>heap := (heap app)(next_ref app := []), selected_files := next_ref app,
         next_ref := Suc (next_ref app), file_count_var := ''No files selected''\<rparr>"

definition select_output_dir :: "string \<Rightarrow> app \<Rightarrow> app" where
  "select_output_dir directory app =
     (if directory \<noteq> [] then app\<lparr>output_directory := directory, output_dir_var := directory\<rparr>
      else app)"

text \<open>
  What \<^verbatim>\<open>start_optimization\<close> meets of the platform: \<^verbatim>\<open>os.path.exists\<close>, which is true
  of a path at which there is a directory or a file; \<^verbatim>\<open>os.makedirs\<close>, which returns
  (\<open>None\<close>) or raises an exception, given with its text; and the interpreter's limit
  \<^verbatim>\<open>sys.get_int_max_str_digits()\<close>.  \<open>isdir\<close> is \<^verbatim>\<open>os.path.isdir\<close>, which the code does
  not call: it says whether there is a directory at a path.
\<close>

record platform =
  path_exists :: "string \<Rightarrow> bool"
  isdir :: "string \<Rightarrow> bool"
  makedirs :: "string \<Rightarrow> (py_exc \<times> string) option"
  int_max_str_digits :: nat

text \<open>
  Lines 599 to 616: the settings dictionary.  Each bound is
  \<^verbatim>\<open>int(raw) if raw.isdigit() else int(DEFAULTS[...])\<close>, with the defaults \<^verbatim>\<open>"1920"\<close> and
  \<^verbatim>\<open>"1080"\<close>; the other entries are read from the variables of the widgets.
\<close>

definition captured_bound :: "platform \<Rightarrow> string \<Rightarrow> string \<Rightarrow> py_exc + int" where
  "captured_bound pf raw default_text =
     (if isdigit raw then int_of_isdigit_str (int_max_str_digits pf) raw
      else int_of_isdigit_str (int_max_str_digits pf) default_text)"

definition capture_settings :: "platform \<Rightarrow> app \<Rightarrow> string \<Rightarrow> py_exc + settings" where
  "capture_settings pf app dir =
     (case captured_bound pf (max_width_var app) ''1920'' of
        Inl e \<Rightarrow> Inl e
      | Inr width \<Rightarrow>
     (case captured_bound pf (max_height_var app) ''1080'' of
        Inl e \<Rightarrow> Inl e
      | Inr height \<Rightarrow>
          Inr \<lparr>jpg_quality = jpg_quality_var app,
               png_compression = png_compression_var app,
               resize = resize_enabled app,
               max_width = width,
               max_height = height,
               convert_format = convert_format_var app,
               preserve_names = preserve_names_var app,
               output_dir = dir\<rparr>))"

text \<open>
  Lines 581 to 586 of \<^verbatim>\<open>start_optimization\<close>: an empty output directory field is set to
  the \<^verbatim>\<open>optimized\<close> folder beside the first selected file.
\<close>

definition default_output_dir :: "app \<Rightarrow> app" where
  "default_output_dir app =
     (if output_dir_var app = []
      then app\<lparr>output_dir_var := join (dirname (hd (heap app (selected_files app)))) ''optimized''\<rparr>
      else app)"

text \<open>
  \<^verbatim>\<open>start_optimization\<close>, lines 574 to 631.  The handler of \<^verbatim>\<open>os.makedirs\<close> is
  \<^verbatim>\<open>except OSError\<close>.  The result is the state that the call leaves behind, with the
  exception that left it, if any: Tk reports an exception of a callback and goes on with
  the event loop.
\<close>

definition start_optimization :: "platform \<Rightarrow> app \<Rightarrow> app \<times> py_exc option" where
  "start_optimization pf app =
     (if heap app (selected_files app) = [] then
        (app\<lparr>dialogs := dialogs app @
              [showwarning ''No Files Selected'' ''Please select at least one image to optimize.'']\<rparr>,
         None)
      else
        (let app1 = default_output_dir app;
             dir = output_dir_var app1
         in case (if path_exists pf dir then None else makedirs pf dir) of
              Some (e, msg) \<Rightarrow>
                if e = OSError then
                  (app1\<lparr>dialogs := dialogs app1 @
                         [showerror ''Error'' (''Could not create output directory: '' @ msg)]\<rparr>,
                   None)
                else (app1, Some e)
            | None \<Rightarrow>
               (case capture_settings pf app1 dir of
                  Inl e \<Rightarrow> (app1, Some e)
                | Inr settings \<Rightarrow>
                    (app1\<lparr>processing := True, optimize_btn := DISABLED, cancel_btn := NORMAL,
                          progress_var := 0, status_var := ''Starting optimization...'',
                          threads := threads app1 @ [(selected_files app1, settings)]\<rparr>,
                     None))))"

definition finish_optimization :: "int \<Rightarrow> int \<Rightarrow> app \<Rightarrow> app" where
  "finish_optimization successful_count failed_count app =
     (let app1 = app\<lparr>processing := False, optimize_btn := NORMAL, cancel_btn := DISABLED\<rparr> in
      if successful_count > 0 then
        app1\<lparr>dialogs := dialogs app1 @
               [showinfo ''Optimization Complete''
                  (''Successfully optimized '' @ str_int successful_count @ '' images.'' @ [CHR 0x0A] @
                   ''Failed: '' @ str_int failed_count @ [CHR 0x0A, CHR 0x0A] @
                   ''Images saved to: '' @ output_dir_var app1)]\<rparr>
      else
        app1\<lparr>dialogs := dialogs app1 @
               [showerror ''Optimization Failed''
                  (''Failed to optimize any of the '' @ str_int (successful_count + failed_count) @
                   '' images.'' @ [CHR 0x0A] @ ''Check the console for error details.'')]\<rparr>)"

definition cancel_optimization :: "app \<Rightarrow> app" where
  "cancel_optimization app =
     (if processing app then app\<lparr>processing := False, status_var := ''Canceling...''\<rparr> else app)"

text \<open>
  What happens to the application state, one event at a time: the user's actions on the
  widgets, the writes of a worker to \<^verbatim>\<open>status_var\<close> and \<^verbatim>\<open>progress_var\<close>, and the call
  of \<^verbatim>\<open>finish_optimization\<close> that a worker posts with \<^verbatim>\<open>root.after\<close>.  Tk does not call
  the command of a button whose state is \<^verbatim>\<open>DISABLED\<close>.
\<close>

datatype event =
    SelectImages "string list"
  | SelectFolder string "(string \<times> string list) list"
  | ClearSelection
  | Browse string
  | SetQuality int
  | SetCompression int
  | SetResize bool
  | TypeMaxWidth string
  | TypeMaxHeight string
  | SetFormat string
  | TypeOutputDir string
  | SetPreserve bool
  | ClickStart platform
  | ClickCancel
  | WorkerStatus string
  | WorkerProgress rat
  | WorkerDone int int

fun handle :: "event \<Rightarrow> app \<Rightarrow> app" where
  "handle (SelectImages files) app = select_files files app"
| "handle (SelectFolder folder walk) app = select_folder folder walk app"
| "handle ClearSelection app = clear_selection app"
| "handle (Browse directory) app = select_output_dir directory app"
| "handle (SetQuality v) app = app\<lparr>jpg_quality_var := v\<rparr>"
| "handle (SetCompression v) app = app\<lparr>png_compression_var := v\<rparr>"
| "handle (SetResize v) app = app\<lparr>resize_enabled := v\<rparr>"
| "handle (TypeMaxWidth v) app = app\<lparr>max_width_var := v\<rparr>"
| "handle (TypeMaxHeight v) app = app\<lparr>max_height_var := v\<rparr>"
| "handle (SetFormat v) app = app\<lparr>convert_format_var := v\<rparr>"
| "handle (TypeOutputDir v) app = app\<lparr>output_dir_var := v\<rparr>"
| "handle (SetPreserve v) app = app\<lparr>preserve_names_var := v\<rparr>"
| "handle (ClickStart pf) app =
     (if optimize_btn app = NORMAL then fst (start_optimization pf app) else app)"
| "handle ClickCancel app =
     (if cancel_btn app = NORMAL then cancel_optimization app else app)"
| "handle (WorkerStatus v) app = app\<lparr>status_var := v\<rparr>"
| "handle (WorkerProgress v) app = app\<lparr>progress_var := v\<rparr>"
| "handle (WorkerDone successful_count failed_count) app =
     finish_optimization successful_count failed_count app"

definition handle_all :: "event list \<Rightarrow> app \<Rightarrow> app" where
  "handle_all evs app = foldl (\<lambda>a e. handle e a) app evs"

subsection \<open>The worker loop \<^verbatim>\<open>process_images\<close>\<close>

text \<open>
  The locals of \<^verbatim>\<open>process_images\<close>; \<open>visited\<close> lists the paths handed to
  \<^verbatim>\<open>optimize_image\<close>, in order.  The loop ends when the list is exhausted, at the
  \<^verbatim>\<open>break\<close> of iteration \<open>i\<close> when \<^verbatim>\<open>self.processing\<close> is found false there, or with an
  exception that no handler catches, which ends the thread.
\<close>

record worker =
  total_files :: int
  processed :: int
  successful :: int
  failed :: int
  visited :: "string list"

datatype ending = Exhausted | Cancelled nat | Raised py_exc

text \<open>
  Lines 644 to 659: the \<^verbatim>\<open>try\<close> statement of an iteration.  An exception of
  \<^verbatim>\<open>optimize_image\<close> is counted as a failure and printed with
  \<^verbatim>\<open>f"Error processing {file_path}: {e}"\<close>; an exception of that \<^verbatim>\<open>print\<close> is raised in
  the handler, after the count, and leaves the loop.  The result on the left is the
  exception with the locals as they are when it is raised.
\<close>

definition counted :: "'px pil \<Rightarrow> settings \<Rightarrow> string \<Rightarrow> worker \<Rightarrow> py_exc \<times> worker + worker" where
  "counted lib settings file_path w =
     (let w0 = w\<lparr>visited := visited w @ [file_path]\<rparr> in
      case optimize_image lib file_path settings of
        Inr success \<Rightarrow>
          Inr (if success then w0\<lparr>successful := successful w0 + 1\<rparr>
               else w0\<lparr>failed := failed w0 + 1\<rparr>)
      | Inl e \<Rightarrow>
          (let w1 = w0\<lparr>failed := failed w0 + 1\<rparr> in
           case stdout_print lib (''Error processing '' @ file_path @ '': '' @ exc_str lib e) of
             Some raised \<Rightarrow> Inl (raised, w1)
           | None \<Rightarrow> Inr w1))"

text \<open>
  One iteration past the cancellation check, lines 644 to 669.  The progress is
  \<^verbatim>\<open>(processed / total_files) * 100\<close>, whose division raises outside the \<^verbatim>\<open>try\<close> when
  \<^verbatim>\<open>total_files\<close> is 0 (its quotient is far from the float range for any list that fits
  in memory).  The result on the left is the exception that leaves the loop, with the
  state of the application and the locals at that moment.
\<close>

definition iteration ::
  "'px pil \<Rightarrow> settings \<Rightarrow> nat \<Rightarrow> string \<Rightarrow> app \<Rightarrow> worker \<Rightarrow> py_exc \<times> app \<times> worker + app \<times> worker" where
  "iteration lib settings i file_path app w =
     (let app1 = app\<lparr>status_var := ''Processing '' @ basename file_path @ ''...''\<rparr> in
      case counted lib settings file_path w of
        Inl (raised, w1) \<Rightarrow> Inl (raised, app1, w1)
      | Inr w1 \<Rightarrow>
          (let w2 = w1\<lparr>processed := processed w1 + 1\<rparr> in
           if total_files w2 = 0 then Inl (ZeroDivisionError, app1, w2)
           else
             (let progress = binary64 (binary64 (of_int (processed w2) / of_int (total_files w2)) * 100);
                  app2 = app1\<lparr>progress_var := progress\<rparr>
              in Inr (if int i mod 5 = 0 \<or> int i = total_files w2 - 1
                      then app2\<lparr>status_var :=
                             ''Processed '' @ str_int (processed w2) @ ''/'' @ str_int (total_files w2) @
                             '' images. Success: '' @ str_int (successful w2) @
                             '', Failed: '' @ str_int (failed w2)\<rparr>
                      else app2, w2))))"

text \<open>
  The loop over \<^verbatim>\<open>enumerate(files)\<close>.  \<open>files\<close> is the reference the thread was given,
  read again at every step, as the list iterator does.  The control context runs
  concurrently: \<open>sched\<close> lists, for each step of the loop in turn, the events it handles
  before the worker takes that step; after the last entry it handles none.  \<open>libs i\<close> is
  the library, with the clock and the standard output, as iteration \<open>i\<close> finds them.
\<close>

function worker_loop ::
  "(nat \<Rightarrow> 'px pil) \<Rightarrow> settings \<Rightarrow> nat \<Rightarrow> event list list \<Rightarrow> nat \<Rightarrow> app \<Rightarrow> worker \<Rightarrow> app \<times> worker \<times> ending"
where
  "worker_loop libs settings files sched i app w =
     (let app1 = handle_all (case sched of [] \<Rightarrow> [] | evs # _ \<Rightarrow> evs) app in
      if i < length (heap app1 files) then
        if \<not> processing app1 then (app1, w, Cancelled i)
        else
          (case iteration (libs i) settings i (heap app1 files ! i) app1 w of
             Inl (raised, app2, w2) \<Rightarrow> (app2, w2, Raised raised)
           | Inr (app2, w2) \<Rightarrow> worker_loop libs settings files (tl sched) (Suc i) app2 w2)
      else (app1, w, Exhausted))"
  by pat_completeness auto
termination
proof (relation "measures [\<lambda>(libs, settings, files, sched, i, app, w). length sched,
                           \<lambda>(libs, settings, files, sched, i, app, w). length (heap app files) - i]")
  show "wf (measures [\<lambda>(libs :: nat \<Rightarrow> 'px pil, settings :: settings, files :: nat, sched :: event list list, i :: nat, app :: app, w :: worker). length sched,
                           \<lambda>(libs, settings, files, sched, i, app, w). length (heap app files) - i])"
    by simp
next
  fix libs :: "nat \<Rightarrow> 'px pil" and settings files sched i app w app1 x2 app2 w2
  assume a: "app1 = handle_all (case sched of [] \<Rightarrow> [] | evs # _ \<Rightarrow> evs) app"
    "i < length (heap app1 files)"
    "iteration (libs i) settings i (heap app1 files ! i) app1 w = Inr x2"
    "(app2, w2) = x2"
  have h: "heap app2 = heap app1"
    using a(3,4) by (auto simp: iteration_def Let_def split: if_splits sum.splits prod.splits)
  show "((libs, settings, files, tl sched, Suc i, app2, w2), (libs, settings, files, sched, i, app, w))
        \<in> measures [\<lambda>(libs, settings, files, sched, i, app, w). length sched,
                     \<lambda>(libs, settings, files, sched, i, app, w). length (heap app files) - i]"
  proof (cases sched)
    case Nil
    with a(1) have "app1 = app" by (simp add: handle_all_def)
    with Nil h a(2) show ?thesis by auto
  next
    case (Cons evs rest)
    then show ?thesis by simp
  qed
qed

declare worker_loop.simps [simp del]

text \<open>
  \<^verbatim>\<open>process_images\<close> up to the call of \<^verbatim>\<open>root.after\<close>, and the arguments with which that
  call posts \<^verbatim>\<open>finish_optimization\<close>: none when the thread died of an exception.
\<close>

definition process_images :: "(nat \<Rightarrow> 'px pil) \<Rightarrow> event list list \<Rightarrow> nat \<Rightarrow> settings \<Rightarrow> app \<Rightarrow> app \<times> worker \<times> ending" where
  "process_images libs sched files settings app =
     worker_loop libs settings files sched 0 app
       \<lparr>total_files = int (length (heap app files)), processed = 0, successful = 0, failed = 0,
        visited = []\<rparr>"

definition posted :: "app \<times> worker \<times> ending \<Rightarrow> event option" where
  "posted r =
     (case r of
        (app, w, Raised e) \<Rightarrow> None
      | (app, w, _) \<Rightarrow> Some (WorkerDone (successful w) (failed w)))"

subsection \<open>Concrete libraries, platforms and runs\<close>

text \<open>
  A standard output that takes every text, and one whose encoding is ASCII, on which
  \<^verbatim>\<open>print\<close> raises \<^verbatim>\<open>UnicodeEncodeError\<close> for a text with a character from U+0080 on (the
  characters whose eighth bit is set).
\<close>

definition any_stdout :: "string \<Rightarrow> py_exc option" where
  "any_stdout text = None"

definition ascii_stdout :: "string \<Rightarrow> py_exc option" where
  "ascii_stdout text = (if list_ex digit7 text then Some UnicodeEncodeError else None)"

text \<open>
  A library whose encoders reject every mode but RGB and that opens every file as a
  2 x 2 RGBA image; a library that cannot decode any file; the same with a standard
  output in ASCII; a library whose saves all succeed.
\<close>

definition rgb_only_lib :: "nat pil" where
  "rgb_only_lib =
     \<lparr>pil_open = (\<lambda>p. Inr \<lparr>im_mode = ''RGBA'', im_size = (2, 2), im_format = Some ''PNG'', im_data = 1\<rparr>),
      pil_resize = (\<lambda>img sz. Inr 2),
      pil_new = (\<lambda>m sz c. Inr 3),
      pil_split = (\<lambda>img. Inr (replicate 4 (img\<lparr>im_mode := ''L''\<rparr>))),
      pil_paste = (\<lambda>bg img m. Inr 4),
      pil_save = (\<lambda>img p a. if im_mode img = ''RGB'' then None else Some OSError),
      time_time = 1700000000,
      exc_str = (\<lambda>e. ''cannot write mode''),
      stdout_print = any_stdout\<rparr>"

definition undecodable_lib :: "nat pil" where
  "undecodable_lib =
     rgb_only_lib\<lparr>pil_open := (\<lambda>p. Inl (Other ''UnidentifiedImageError'')),
                  exc_str := (\<lambda>e. ''cannot identify image file'')\<rparr>"

definition ascii_console_lib :: "nat pil" where
  "ascii_console_lib = undecodable_lib\<lparr>stdout_print := ascii_stdout\<rparr>"

definition accepting_lib :: "nat pil" where
  "accepting_lib = rgb_only_lib\<lparr>pil_save := (\<lambda>img p a. None)\<rparr>"

text \<open>
  A library that opens every file as a 2 x 2 RGB image and whose saves fail as they do
  under a path whose parent is not a directory.
\<close>

definition no_directory_lib :: "nat pil" where
  "no_directory_lib =
     rgb_only_lib\<lparr>pil_open := (\<lambda>p. Inr \<lparr>im_mode = ''RGB'', im_size = (2, 2), im_format = Some ''PNG'', im_data = 1\<rparr>),
                  pil_save := (\<lambda>img p a. Some (Other ''NotADirectoryError'')),
                  exc_str := (\<lambda>e. ''[Errno 20] Not a directory'')\<rparr>"

text \<open>
  A platform on which every directory exists; one on which none exists or can be
  created; and one on which \<^verbatim>\<open>/in/notes.txt\<close> is a regular file, so that there is no
  directory of that name and \<^verbatim>\<open>os.makedirs\<close> cannot create one.
\<close>

definition fs_ready :: platform where
  "fs_ready =
     \<lparr>path_exists = (\<lambda>p. True), isdir = (\<lambda>p. True), makedirs = (\<lambda>p. None),
      int_max_str_digits = 4300\<rparr>"

definition fs_readonly :: platform where
  "fs_readonly =
     \<lparr>path_exists = (\<lambda>p. False), isdir = (\<lambda>p. False),
      makedirs = (\<lambda>p. Some (OSError, ''[Errno 13] Permission denied'')),
      int_max_str_digits = 4300\<rparr>"

definition fs_with_a_file :: platform where
  "fs_with_a_file =
     \<lparr>path_exists = (\<lambda>p. p \<in> set [''/'', ''/in'', ''/in/a.png'', ''/in/notes.txt'']),
      isdir = (\<lambda>p. p \<in> set [''/'', ''/in'']),
      makedirs = (\<lambda>p. if p \<in> set [''/'', ''/in'', ''/in/a.png'', ''/in/notes.txt'']
                        then Some (OSError, ''[Errno 17] File exists'')
                        else if p \<in> set [''/in/optimized''] then None
                        else Some (OSError, ''[Errno 20] Not a directory'')),
      int_max_str_digits = 4300\<rparr>"

text \<open>The default settings with a conversion to JPEG.\<close>

definition jpg_settings :: settings where
  "jpg_settings =
     \<lparr>jpg_quality = 85, png_compression = 6, resize = False, max_width = 1920,
      max_height = 1080, convert_format = ''jpg'', preserve_names = True, output_dir = ''/out''\<rparr>"

text \<open>The application after two files were selected, and after the start button was clicked.\<close>

definition two_selected :: app where
  "two_selected = handle (SelectImages [''/in/a.png'', ''/in/b.png'']) init_app"

definition two_running :: app where
  "two_running = handle (ClickStart fs_ready) two_selected"

text \<open>
  The application running on one file whose name is \<^verbatim>\<open>/in/caf\<close>, the character U+00E9
  and \<^verbatim>\<open>.png\<close>.
\<close>

definition accent_running :: app where
  "accent_running =
     handle_all [SelectImages [''/in/caf'' @ [CHR 0xE9] @ ''.png''], ClickStart fs_ready] init_app"

text \<open>
  The application after one file was selected and the path of the regular file was
  typed into the field of the output directory.
\<close>

definition file_as_output_dir :: app where
  "file_as_output_dir =
     handle_all [SelectImages [''/in/a.png''], TypeOutputDir ''/in/notes.txt''] init_app"

subsection \<open>Pillow on the pixels of 8-bit images\<close>

text \<open>
  To see what the JPEG branch does to the pixels, the operations of Pillow that it calls
  are written out for images of the modes L, LA, P, RGB and RGBA, as \<^verbatim>\<open>Image.py\<close> and
  \<^verbatim>\<open>Paste.c\<close> of Pillow define them.  A raster holds the pixels row by row, each the list
  of its band values from 0 to 255, and the palette of a P image; \<open>well_formed\<close> says
  that there are as many pixels as the size tells, each with the bands of the mode.

  \<^item> \<^verbatim>\<open>Image.new("RGB", size, color)\<close> fills the image with the colour, and raises
    \<^verbatim>\<open>ValueError\<close> on a negative size; the code asks for no other mode.
  \<^item> \<^verbatim>\<open>split()\<close> returns one image of mode L for each band, and a copy of an image of
    one band.
  \<^item> \<^verbatim>\<open>paste(im, mask=None)\<close> onto an RGB image replaces its pixels by those of \<^verbatim>\<open>im\<close>
    converted to RGB: a grey value of L or LA three times, the palette entry of P, the
    colour bands of RGBA.  The alpha band of \<^verbatim>\<open>im\<close> is not read.
  \<^item> \<^verbatim>\<open>paste(im, mask=m)\<close> with a mask of mode L sets each band to
    \<^verbatim>\<open>DIV255(out * (255 - m) + in * m)\<close>, where \<^verbatim>\<open>DIV255(a)\<close> is
    \<^verbatim>\<open>((a + 128 >> 8) + a + 128) >> 8\<close>.
  \<^item> The JPEG encoder writes the modes 1, L, RGB, RGBX, CMYK and YCbCr, and raises
    \<^verbatim>\<open>OSError\<close> (cannot write mode) on every other.

  Files and resampling are not written out: \<open>pixel_lib\<close> opens no file and resizes no
  image, and its disk takes every file that an encoder writes.
\<close>

record raster =
  pixels :: "int list list"
  palette :: "int list list"

definition bands_of :: "string \<Rightarrow> nat" where
  "bands_of m =
     (if m = ''RGBA'' then 4 else if m = ''RGB'' then 3 else if m = ''LA'' then 2 else 1)"

definition well_formed :: "raster image \<Rightarrow> bool" where
  "well_formed img \<longleftrightarrow>
     0 \<le> fst (im_size img) \<and> 0 \<le> snd (im_size img) \<and>
     int (length (pixels (im_data img))) = fst (im_size img) * snd (im_size img) \<and>
     list_all (\<lambda>p. length p = bands_of (im_mode img) \<and> list_all (\<lambda>v. 0 \<le> v \<and> v \<le> 255) p)
       (pixels (im_data img))"

definition pillow_new :: "string \<Rightarrow> int \<times> int \<Rightarrow> int \<times> int \<times> int \<Rightarrow> py_exc + raster" where
  "pillow_new m sz color =
     (case (sz, color) of
        ((w, h), (r, g, b)) \<Rightarrow>
          if w < 0 \<or> h < 0 then Inl ValueError
          else Inr \<lparr>pixels = replicate (nat (w * h)) [r, g, b], palette = []\<rparr>)"

definition pillow_split :: "raster image \<Rightarrow> py_exc + raster image list" where
  "pillow_split img =
     (if bands_of (im_mode img) = 1 then Inr [img\<lparr>im_format := None\<rparr>]
      else Inr (map (\<lambda>band. \<lparr>im_mode = ''L'', im_size = im_size img, im_format = None,
                              im_data = \<lparr>pixels = map (\<lambda>p. [p ! band]) (pixels (im_data img)),
                                         palette = []\<rparr>\<rparr>)
                  [0 ..< bands_of (im_mode img)]))"

definition convert_rgb :: "raster image \<Rightarrow> int list list" where
  "convert_rgb img =
     (if im_mode img = ''P'' then
        map (\<lambda>p. if nat (hd p) < length (palette (im_data img))
                  then palette (im_data img) ! nat (hd p) else [0, 0, 0])
          (pixels (im_data img))
      else if im_mode img = ''L'' \<or> im_mode img = ''LA'' then
        map (\<lambda>p. [hd p, hd p, hd p]) (pixels (im_data img))
      else map (take 3) (pixels (im_data img)))"

definition blend8 :: "int \<Rightarrow> int \<Rightarrow> int \<Rightarrow> int" where
  "blend8 m out inp = (let a = out * (255 - m) + inp * m + 128 in (a div 256 + a) div 256)"

definition pillow_paste :: "raster image \<Rightarrow> raster image \<Rightarrow> raster image option \<Rightarrow> py_exc + raster" where
  "pillow_paste background img alpha =
     (if im_size img \<noteq> im_size background then Inl ValueError
      else case alpha of
             None \<Rightarrow> Inr ((im_data background)\<lparr>pixels := convert_rgb img\<rparr>)
           | Some m \<Rightarrow>
               if im_size m \<noteq> im_size background then Inl ValueError
               else Inr ((im_data background)\<lparr>pixels :=
                      map (\<lambda>(out, inp, a). map (\<lambda>(x, y). blend8 (hd a) x y) (zip out inp))
                        (zip (pixels (im_data background))
                           (zip (convert_rgb img) (pixels (im_data m))))\<rparr>))"

definition pillow_save :: "raster image \<Rightarrow> string \<Rightarrow> save_args \<Rightarrow> py_exc option" where
  "pillow_save img path args =
     (if fmt args = ''JPEG'' \<and>
         im_mode img \<notin> set [''1'', ''L'', ''RGB'', ''RGBX'', ''CMYK'', ''YCbCr'']
      then Some OSError else None)"

definition pixel_lib :: "raster pil" where
  "pixel_lib =
     \<lparr>pil_open = (\<lambda>p. Inl (Other ''FileNotFoundError'')),
      pil_resize = (\<lambda>img sz. Inl (Other ''MemoryError'')),
      pil_new = pillow_new,
      pil_split = pillow_split,
      pil_paste = pillow_paste,
      pil_save = pillow_save,
      time_time = 1700000000,
      exc_str = (\<lambda>e. ''cannot write mode''),
      stdout_print = any_stdout\<rparr>"




text \<open>
  Flattening onto an opaque white background, in the words of the specification: every
  band of a pixel of colour \<open>c\<close> and alpha \<open>a\<close> becomes \<open>(c * a + 255 * (255 - a)) / 255\<close>,
  rounded to the nearest integer.  The alpha of a pixel is its last band in the modes LA
  and RGBA.
\<close>

definition spec_over_white :: "int \<Rightarrow> int \<Rightarrow> int" where
  "spec_over_white a c = (2 * (c * a + 255 * (255 - a)) + 255) div 510"

definition spec_flatten_onto_white :: "raster image \<Rightarrow> int list list" where
  "spec_flatten_onto_white img =
     map (\<lambda>(p, rgb). if im_mode img = ''LA'' \<or> im_mode img = ''RGBA''
                      then map (spec_over_white (last p)) rgb else rgb)
       (zip (pixels (im_data img)) (convert_rgb img))"

section \<open>Properties of the resize arithmetic\<close>

subsection \<open>Rounding to binary64\<close>

lemma powi_nat: "0 \<le> k \<Longrightarrow> (2::rat) powi k = 2 ^ nat k"
  by (simp add: power_int_def)

lemma ilog2_aux:
  fixes p q :: int
  assumes "0 < p" "0 < q"
  defines "k \<equiv> bitlen p - bitlen q"
  shows "(2::rat) powi (k - 1) \<le> of_int p / of_int q" "of_int p / of_int q < (2::rat) powi (k + 1)"
proof -
  have bp: "1 \<le> bitlen p" "1 \<le> bitlen q"
    using assms bitlen_eq_zero_iff[of p] bitlen_eq_zero_iff[of q] bitlen_nonneg[of p] bitlen_nonneg[of q]
    by linarith+
  have "(of_int (2 ^ nat (bitlen p - 1)) :: rat) \<le> of_int p" "(of_int p :: rat) < of_int (2 ^ nat (bitlen p))"
    using bitlen_bounds[OF assms(1)] by (simp_all only: of_int_le_iff of_int_less_iff)
  then have p1: "(2::rat) powi (bitlen p - 1) \<le> of_int p" and p2: "of_int p < (2::rat) powi (bitlen p)"
    using bp by (simp_all add: powi_nat)
  have "(of_int (2 ^ nat (bitlen q - 1)) :: rat) \<le> of_int q" "(of_int q :: rat) < of_int (2 ^ nat (bitlen q))"
    using bitlen_bounds[OF assms(2)] by (simp_all only: of_int_le_iff of_int_less_iff)
  then have q1: "(2::rat) powi (bitlen q - 1) \<le> of_int q" and q2: "of_int q < (2::rat) powi (bitlen q)"
    using bp by (simp_all add: powi_nat)
  have qpos: "(0::rat) < of_int q" using assms by simp
  have "(2::rat) powi (k - 1) * of_int q \<le> 2 powi (k - 1) * 2 powi (bitlen q)"
    using q2 by (intro mult_left_mono) auto
  also have "\<dots> = 2 powi (bitlen p - 1)"
    by (simp add: k_def flip: power_int_add)
  also have "\<dots> \<le> of_int p" by (rule p1)
  finally show "(2::rat) powi (k - 1) \<le> of_int p / of_int q"
    using qpos by (simp add: field_simps)
  have "of_int p < (2::rat) powi (bitlen p)" by (rule p2)
  also have "\<dots> = 2 powi (k + 1) * 2 powi (bitlen q - 1)"
    by (simp add: k_def flip: power_int_add)
  also have "\<dots> \<le> 2 powi (k + 1) * of_int q"
    using q1 by (intro mult_left_mono) auto
  finally show "of_int p / of_int q < (2::rat) powi (k + 1)"
    using qpos by (simp add: field_simps)
qed

lemma ilog2_bounds:
  assumes "0 < x"
  shows "2 powi (ilog2 x) \<le> x" "x < 2 powi (ilog2 x + 1)"
proof -
  obtain p q where pq: "quotient_of x = (p, q)" by (cases "quotient_of x")
  then have q: "0 < q" and x: "x = of_int p / of_int q"
    using quotient_of_denom_pos quotient_of_div by auto
  with assms have p: "0 < p"
    by (simp add: zero_less_divide_iff)
  note a = ilog2_aux[OF p q, folded x]
  show "2 powi (ilog2 x) \<le> x"
    using a by (auto simp: ilog2_def pq Let_def)
  show "x < 2 powi (ilog2 x + 1)"
    using a by (auto simp: ilog2_def pq Let_def not_le)
qed



lemma ilog2_ge: "0 < x \<Longrightarrow> 2 powi a \<le> x \<Longrightarrow> a \<le> ilog2 x"
proof (rule ccontr)
  assume x: "0 < x" and a: "2 powi a \<le> x" and "\<not> a \<le> ilog2 x"
  then have "ilog2 x + 1 \<le> a" by simp
  then have "(2::rat) powi (ilog2 x + 1) \<le> 2 powi a"
    by (intro power_int_increasing) auto
  with ilog2_bounds(2)[OF x] a show False by linarith
qed






lemma out_of_range_iff:
  assumes "0 \<le> x"
  shows "out_of_range x \<longleftrightarrow> 2 ^ 1024 \<le> x"
proof (cases "x = 0")
  case True
  then show ?thesis by (simp add: out_of_range_def)
next
  case False
  with assms have x: "0 < x" by simp
  have "1024 \<le> ilog2 x \<longleftrightarrow> 2 powi 1024 \<le> x"
  proof
    assume "1024 \<le> ilog2 x"
    then have "(2::rat) powi 1024 \<le> 2 powi (ilog2 x)"
      by (intro power_int_increasing) auto
    with ilog2_bounds(1) [OF x] show "2 powi 1024 \<le> x" by linarith
  next
    assume "2 powi 1024 \<le> x"
    with x show "1024 \<le> ilog2 x" by (rule ilog2_ge)
  qed
  with x show ?thesis by (simp add: out_of_range_def)
qed


subsection \<open>The products of the resize step\<close>





lemma new_size_of_empty_image:
  "new_size 0 h M N = Inl ZeroDivisionError"
  "int_truediv M w = Inr q \<Longrightarrow> new_size w 0 M N = Inl ZeroDivisionError"
  by (simp_all add: new_size_def int_truediv_def)








text \<open>The theorem at a 1 x 1081 image under the default bounds, where the size is 0 x 1080.\<close>

lemma resize_of_1_by_1081:
  "resize_target True 1920 1080 (1, 1081) = Inr (Some (0, 1080))"
  by code_simp


section \<open>Properties of the output path\<close>

lemma rfind_last:
  assumes "c \<notin> set b"
  shows "rfind (a @ c # b) c = int (length a)"
proof -
  have "takeWhile (\<lambda>x. x \<noteq> c) (rev b @ c # rev a) = rev b"
    using assms by (auto simp: takeWhile_tail)
  then show ?thesis by (simp add: rfind_def)
qed

lemma rfind_none: "c \<notin> set p \<Longrightarrow> rfind p c = - 1"
  by (simp add: rfind_def)

lemma rfind_append_notin:
  assumes "c \<notin> set b"
  shows "rfind (a @ b) c = rfind a c"
proof (cases "c \<in> set a")
  case True
  then obtain a1 a2 where a: "a = a1 @ c # a2" "c \<notin> set a2"
    by (meson split_list_last)
  then have "rfind (a1 @ c # (a2 @ b)) c = int (length a1)"
    using assms by (intro rfind_last) auto
  with a show ?thesis by (simp add: rfind_last)
next
  case False
  with assms show ?thesis by (simp add: rfind_none)
qed

lemma rfind_less: "rfind p c < int (length p)"
  by (auto simp: rfind_def)

lemma splitext_basename: "snd (splitext (basename p)) = snd (splitext p)"
proof (cases "CHR ''/'' \<in> set p")
  case False
  then show ?thesis by (simp add: basename_def rfind_none slice_from_def)
next
  case True
  then obtain a b where p: "p = a @ CHR ''/'' # b" "CHR ''/'' \<notin> set b"
    by (meson split_list_last)
  have sep: "rfind p CHR ''/'' = int (length a)" unfolding p(1) using p(2) by (rule rfind_last)
  have bn: "basename p = b"
    unfolding basename_def Let_def sep slice_from_def by (simp add: p(1) nat_add_distrib)
  have sepb: "rfind b CHR ''/'' = - 1" using p(2) by (rule rfind_none)
  show ?thesis
  proof (cases "CHR ''.'' \<in> set b")
    case False
    have "rfind p CHR ''.'' = rfind (a @ [CHR ''/'']) CHR ''.''"
      using rfind_append_notin[OF False, of "a @ [CHR ''/'']"] by (simp add: p(1))
    also have "\<dots> = rfind a CHR ''.''"
      by (rule rfind_append_notin) simp
    finally have "rfind p CHR ''.'' < int (length a)" using rfind_less[of a "CHR ''.''"] by simp
    then show ?thesis using False by (simp add: bn splitext_def sep sepb rfind_none Let_def)
  next
    case True
    then obtain b1 b2 where b: "b = b1 @ CHR ''.'' # b2" "CHR ''.'' \<notin> set b2"
      by (meson split_list_last)
    have dotb: "rfind b CHR ''.'' = int (length b1)" unfolding b(1) using b(2) by (rule rfind_last)
    have "p = (a @ CHR ''/'' # b1) @ CHR ''.'' # b2" by (simp add: p(1) b(1))
    then have dotp: "rfind p CHR ''.'' = int (length (a @ CHR ''/'' # b1))"
      using b(2) rfind_last by metis
    have s1: "slice_to (slice_from p (rfind p CHR ''/'' + 1)) (rfind p CHR ''.'' - (rfind p CHR ''/'' + 1)) = b1"
      unfolding sep dotp slice_to_def slice_from_def by (simp add: p(1) b(1) nat_add_distrib)
    have s2: "slice_to (slice_from b (rfind b CHR ''/'' + 1)) (rfind b CHR ''.'' - (rfind b CHR ''/'' + 1)) = b1"
      unfolding sepb dotb slice_to_def slice_from_def by (simp add: b(1))
    have e1: "slice_from p (rfind p CHR ''.'') = CHR ''.'' # b2"
      unfolding dotp slice_from_def by (simp add: p(1) b(1) nat_add_distrib)
    have e2: "slice_from b (rfind b CHR ''.'') = CHR ''.'' # b2"
      unfolding dotb slice_from_def by (simp add: b(1))
    have g1: "rfind p CHR ''.'' > rfind p CHR ''/''" by (simp add: sep dotp)
    have g2: "rfind b CHR ''.'' > rfind b CHR ''/''" by (simp add: sepb dotb)
    show ?thesis
      unfolding bn splitext_def Let_def s1 s2 e1 e2 using g1 g2 by simp
  qed
qed

text \<open>
  Claim C5.  For every source path and settings, the output path is the output file
  name joined onto the output directory, and the file name is the one of the naming
  rule: the base name of the source without its extension, followed by the conversion
  extension when the target format is not \<open>original\<close> and by the original extension
  otherwise, with \<open>_optimized_\<close> and the integer part of the clock reading in between
  when the names are not preserved.
\<close>

theorem output_path_naming_rule:
  "output_path settings file_path now =
     join (output_dir settings) (spec_outputFileName settings file_path (py_int now))"
  by (cases "splitext (basename file_path)")
     (simp add: output_path_def output_filename_def spec_outputFileName_def Let_def
        splitext_basename [symmetric])

text \<open>Two paths computed for \<^verbatim>\<open>/photos/2024.05/cat.jpeg\<close>.\<close>

lemma output_path_examples:
  "output_path \<lparr>jpg_quality = 85, png_compression = 6, resize = False, max_width = 1920,
       max_height = 1080, convert_format = ''png'', preserve_names = True,
       output_dir = ''/out''\<rparr> ''/photos/2024.05/cat.jpeg'' 1700000000 = ''/out/cat.png''"
  "output_path \<lparr>jpg_quality = 85, png_compression = 6, resize = False, max_width = 1920,
       max_height = 1080, convert_format = ''original'', preserve_names = False,
       output_dir = ''/out''\<rparr> ''/photos/2024.05/cat.jpeg'' 1700000000 =
     ''/out/cat_optimized_1700000000.jpeg''"
  by (simp_all add: output_path_def output_filename_def basename_def splitext_def rfind_def
      slice_from_def slice_to_def join_def lower_def lower_char_def py_int_def str_int_def
      digit_def)

section \<open>Properties of the captured settings\<close>

lemma int_of_digits_nonneg_aux:
  "0 \<le> acc \<Longrightarrow> 0 \<le> foldl (\<lambda>acc c. 10 * acc + digit_value c) acc s"
proof (induction s arbitrary: acc)
  case Nil
  then show ?case by simp
next
  case (Cons c s)
  have "0 \<le> digit_value c"
    by (auto simp: digit_value_def split: option.splits if_splits)
  with Cons.prems have "0 \<le> 10 * acc + digit_value c" by simp
  then show ?case using Cons.IH by simp
qed

lemma int_of_digits_nonneg: "0 \<le> int_of_digits s"
  by (simp add: int_of_digits_def int_of_digits_nonneg_aux)

lemma default_bounds:
  "int_of_isdigit_str limit ''1920'' = Inr 1920" "int_of_isdigit_str limit ''1080'' = Inr 1080"
  by (simp_all add: int_of_isdigit_str_def int_of_digits_def digit_value_def)

lemma captured_bound_nonneg:
  "captured_bound pf raw default_text = Inr v \<Longrightarrow> 0 \<le> v"
  by (auto simp: captured_bound_def int_of_isdigit_str_def int_of_digits_nonneg split: if_splits)

text \<open>
  When the settings are captured, the bounds are not negative, and a text that
  \<^verbatim>\<open>isdigit\<close> rejects yields the default.  They are captured when each field holds at
  most 640 ASCII digits or a text that \<^verbatim>\<open>isdigit\<close> rejects.
\<close>

lemma captured_bounds_nonneg:
  assumes "capture_settings pf app dir = Inr s"
  shows "0 \<le> max_width s" and "0 \<le> max_height s"
  using assms
  by (auto simp: capture_settings_def split: sum.splits dest: captured_bound_nonneg)

lemma captured_defaults:
  assumes "capture_settings pf app dir = Inr s"
  shows "\<not> isdigit (max_width_var app) \<Longrightarrow> max_width s = 1920"
    and "\<not> isdigit (max_height_var app) \<Longrightarrow> max_height s = 1080"
  using assms
  by (auto simp: capture_settings_def captured_bound_def default_bounds split: sum.splits)

lemma captured_bound_returns:
  assumes "\<not> isdigit raw \<or> (list_all (\<lambda>c. c \<in> set ''0123456789'') raw \<and> length raw \<le> 640)"
  shows "captured_bound pf raw ''1920'' =
           Inr (if isdigit raw then int_of_digits raw else 1920)"
    and "captured_bound pf raw ''1080'' =
           Inr (if isdigit raw then int_of_digits raw else 1080)"
  using assms
  by (auto simp: captured_bound_def default_bounds) (auto simp: int_of_isdigit_str_def)

lemma capture_settings_returns:
  assumes "\<not> isdigit (max_width_var app) \<or>
           (list_all (\<lambda>c. c \<in> set ''0123456789'') (max_width_var app) \<and> length (max_width_var app) \<le> 640)"
    and "\<not> isdigit (max_height_var app) \<or>
           (list_all (\<lambda>c. c \<in> set ''0123456789'') (max_height_var app) \<and> length (max_height_var app) \<le> 640)"
  shows "\<exists>s. capture_settings pf app dir = Inr s"
  by (simp add: capture_settings_def captured_bound_returns [OF assms(1)]
      captured_bound_returns [OF assms(2)])

text \<open>
  A superscript two in the width field passes \<^verbatim>\<open>isdigit\<close>, and \<^verbatim>\<open>int\<close> raises
  \<^verbatim>\<open>ValueError\<close> on it: \<^verbatim>\<open>start_optimization\<close> ends with that exception, and no run is
  started.
\<close>

lemma superscript_bound_raises:
  "snd (start_optimization fs_ready
          (handle_all [SelectImages [''/in/a.png''], TypeMaxWidth [CHR 0xB2]] init_app)) =
     Some ValueError"
  "threads (fst (start_optimization fs_ready
          (handle_all [SelectImages [''/in/a.png''], TypeMaxWidth [CHR 0xB2]] init_app))) = []"
  "\<not> processing (fst (start_optimization fs_ready
          (handle_all [SelectImages [''/in/a.png''], TypeMaxWidth [CHR 0xB2]] init_app)))"
  by (simp_all add: handle_all_def init_app_def fs_ready_def select_files_def update_files_list_def
      start_optimization_def default_output_dir_def capture_settings_def captured_bound_def
      isdigit_def int_of_isdigit_str_def Let_def)

text \<open>
  Claim C6 says that the captured bounds hold the parsed value when the text is a
  positive integer and the defaults 1920 and 1080 otherwise, so that they are always
  positive.  The test of the code is \<^verbatim>\<open>isdigit\<close>, which the text \<^verbatim>\<open>0\<close> passes: with
  \<^verbatim>\<open>0\<close> in the width field and \<^verbatim>\<open>abc\<close> in the height field, the settings handed to the
  worker hold the width bound 0, not the default, and the height bound 1080.
\<close>

theorem zero_width_bound_is_captured:
  "map (\<lambda>(files, s). (max_width s, max_height s))
     (threads (handle_all
        [SelectImages [''/in/a.png''], TypeMaxWidth ''0'', TypeMaxHeight ''abc'',
         ClickStart fs_ready] init_app)) =
   [(0, 1080)]"
  by (simp add: handle_all_def init_app_def fs_ready_def select_files_def update_files_list_def
      start_optimization_def default_output_dir_def capture_settings_def captured_bound_def
      isdigit_def int_of_isdigit_str_def int_of_digits_def digit_value_def Let_def)

section \<open>Properties of the per-image transform\<close>

text \<open>
  \<^verbatim>\<open>optimize_image\<close> raises exactly when a step of its \<^verbatim>\<open>try\<close> block raised and the
  \<^verbatim>\<open>print\<close> of its handler raised on the message; the exception is that of the \<^verbatim>\<open>print\<close>.
\<close>

lemma optimize_image_raises_iff:
  "optimize_image lib file_path settings = Inl raised \<longleftrightarrow>
     (\<exists>e. optimize_image_try lib file_path settings = Inl e \<and>
          stdout_print lib (''Error optimizing '' @ file_path @ '': '' @ exc_str lib e) = Some raised)"
  by (auto simp: optimize_image_def split: sum.splits option.splits)

text \<open>
  On a standard output that takes every text, \<^verbatim>\<open>optimize_image\<close> returns: \<^verbatim>\<open>False\<close> when
  the decoding, the resize step, or the encoding and the write raised, \<^verbatim>\<open>True\<close> when
  every step succeeded.
\<close>

lemma optimize_image_returns:
  assumes out: "\<And>text. stdout_print lib text = None"
  shows
  "(\<exists>e. pil_open lib file_path = Inl e \<and>
        optimize_image lib file_path settings = Inr False) \<or>
   (\<exists>opened e. pil_open lib file_path = Inr opened \<and>
        resize_step lib settings opened = Inl e \<and>
        optimize_image lib file_path settings = Inr False) \<or>
   (\<exists>opened img e. pil_open lib file_path = Inr opened \<and>
        resize_step lib settings opened = Inr img \<and>
        save_step lib settings img (output_format_of settings img)
          (output_path settings file_path (time_time lib)) = Inl e \<and>
        optimize_image lib file_path settings = Inr False) \<or>
   (\<exists>opened img. pil_open lib file_path = Inr opened \<and>
        resize_step lib settings opened = Inr img \<and>
        save_step lib settings img (output_format_of settings img)
          (output_path settings file_path (time_time lib)) = Inr () \<and>
        optimize_image lib file_path settings = Inr True)"
proof (cases "pil_open lib file_path")
  case (Inl e)
  then show ?thesis by (simp add: optimize_image_def optimize_image_try_def out)
next
  case opened: (Inr opened)
  show ?thesis
  proof (cases "resize_step lib settings opened")
    case (Inl e)
    with opened show ?thesis by (simp add: optimize_image_def optimize_image_try_def out)
  next
    case img: (Inr img)
    show ?thesis
    proof (cases "save_step lib settings img (output_format_of settings img)
          (output_path settings file_path (time_time lib))")
      case (Inl e)
      with opened img show ?thesis
        by (simp add: optimize_image_def optimize_image_try_def Let_def out)
    next
      case (Inr u)
      with opened img show ?thesis
        by (simp add: optimize_image_def optimize_image_try_def Let_def)
    qed
  qed
qed

text \<open>
  Claim C3 says that \<^verbatim>\<open>optimize_image\<close> never raises past its own boundary.  Its handler
  \<^verbatim>\<open>except Exception\<close> catches every failure of a step, and then prints the path and the
  exception before it returns \<^verbatim>\<open>False\<close>; that \<^verbatim>\<open>print\<close> is not guarded.  With a standard
  output in ASCII and a file that Pillow cannot decode and whose name is \<^verbatim>\<open>/in/caf\<close>, the
  character U+00E9 and \<^verbatim>\<open>.png\<close>, the \<^verbatim>\<open>print\<close> raises \<^verbatim>\<open>UnicodeEncodeError\<close>, and
  \<^verbatim>\<open>optimize_image\<close> raises it instead of returning.  For the file \<^verbatim>\<open>/in/cafe.png\<close> it
  returns \<^verbatim>\<open>False\<close>.
\<close>

theorem optimize_image_raises_in_its_handler:
  "optimize_image ascii_console_lib (''/in/caf'' @ [CHR 0xE9] @ ''.png'') jpg_settings =
     Inl UnicodeEncodeError \<and>
   optimize_image ascii_console_lib ''/in/cafe.png'' jpg_settings = Inr False"
  by (simp add: optimize_image_def optimize_image_try_def ascii_console_lib_def
      undecodable_lib_def rgb_only_lib_def ascii_stdout_def)

lemma resize_failure_is_a_failed_item:
  assumes "pil_open lib file_path = Inr opened" and "resize_step lib settings opened = Inl e"
    and "stdout_print lib (''Error optimizing '' @ file_path @ '': '' @ exc_str lib e) = None"
  shows "optimize_image lib file_path settings = Inr False"
  using assms by (simp add: optimize_image_def optimize_image_try_def)

lemma resize_step_unchanged:
  assumes "\<not> (resize settings \<and>
              (max_width settings < fst (im_size img) \<or> max_height settings < snd (im_size img)))"
  shows "resize_step lib settings img = Inr img"
  using assms
  by (cases "im_size img") (auto simp: resize_step_def resize_target_def)

subsection \<open>The JPEG branch\<close>




text \<open>
  With Pillow's operations on the pixels, the amended claim tells what reaches the
  encoder.  \<^verbatim>\<open>DIV255\<close> rounds to the nearest integer, so that the blend of Pillow with
  white is the flattening of the specification: an RGBA image is flattened onto white.
  An image of mode LA or P reaches the encoder as its conversion to RGB, whatever its
  alpha band or the transparency of its palette entries.
\<close>

lemma int_div_eqI:
  fixes a q :: int
  assumes "256 * q \<le> a" "a < 256 * q + 256"
  shows "a div 256 = q"
proof -
  have "a div 256 = (a - 256 * q) div 256 + q" by simp
  moreover have "(a - 256 * q) div 256 = 0" using assms by simp
  ultimately show ?thesis by simp
qed

lemma div255:
  fixes x :: int
  assumes "0 \<le> x" "x \<le> 65025"
  shows "((x + 128) div 256 + (x + 128)) div 256 = (2 * x + 255) div 510"
proof -
  define q where "q = (x + 127) div 255"
  define r where "r = (x + 127) mod 255"
  have x: "x + 127 = 255 * q + r" and r: "0 \<le> r" "r < 255"
    by (simp_all add: q_def r_def)
  have q: "0 \<le> q" "q \<le> 255"
    using assms by (simp_all add: q_def)
  have "(2 * x + 255) div 510 = (2 * r + 1 + 510 * q) div 510"
    using x by (simp add: algebra_simps)
  also have "\<dots> = (2 * r + 1) div 510 + q" by simp
  also have "(2 * r + 1) div 510 = 0" using r by simp
  finally have right: "(2 * x + 255) div 510 = q" by simp
  have left: "((x + 128) div 256 + (x + 128)) div 256 = q"
  proof (cases "q \<le> r + 1")
    case True
    have "(x + 128) div 256 = q"
      using x r q True by (intro int_div_eqI) linarith+
    then show ?thesis
      using x r q by (intro int_div_eqI) linarith+
  next
    case False
    have "(x + 128) div 256 = q - 1"
      using x r q False by (intro int_div_eqI) (simp_all add: right_diff_distrib)
    then show ?thesis
      using x r q False by (intro int_div_eqI) linarith+
  qed
  show ?thesis using left right by simp
qed

lemma blend8_over_white:
  assumes "0 \<le> a" "a \<le> 255" "0 \<le> c" "c \<le> 255"
  shows "blend8 a 255 c = spec_over_white a c"
proof -
  have "c * a \<le> 255 * a" using assms by (intro mult_right_mono) simp_all
  moreover have "0 \<le> c * a" using assms by simp
  ultimately have "0 \<le> c * a + 255 * (255 - a)" "c * a + 255 * (255 - a) \<le> 65025"
    using assms by (simp_all add: right_diff_distrib)
  from div255 [OF this] show ?thesis
    by (simp add: blend8_def spec_over_white_def Let_def algebra_simps)
qed

lemma four_bands:
  assumes "length p = 4"
  obtains r g b a where "p = [r, g, b, a]"
proof -
  from assms obtain r p1 where p: "p = r # p1" "length p1 = 3"
    by (cases p) simp_all
  then obtain g p2 where p1: "p1 = g # p2" "length p2 = 2"
    by (cases p1) simp_all
  then obtain b p3 where p2: "p2 = b # p3" "length p3 = 1"
    by (cases p2) simp_all
  then obtain a where "p3 = [a]"
    by (cases p3) simp_all
  with p p1 p2 that show ?thesis by simp
qed

lemma blended_pixels:
  assumes "list_all (\<lambda>p. length p = 4 \<and> list_all (\<lambda>v. 0 \<le> v \<and> v \<le> 255) p) px"
  shows "map (\<lambda>(out, inp, a). map (\<lambda>(x, y). blend8 (hd a) x y) (zip out inp))
           (zip (replicate (length px) [255, 255, 255])
              (zip (map (take 3) px) (map (\<lambda>p. [p ! 3]) px))) =
         map (\<lambda>(p, rgb). map (spec_over_white (last p)) rgb) (zip px (map (take 3) px))"
  using assms
proof (induction px)
  case Nil
  show ?case by simp
next
  case (Cons p px)
  from Cons.prems have len: "length p = 4" and range: "list_all (\<lambda>v. 0 \<le> v \<and> v \<le> 255) p"
    and rest: "list_all (\<lambda>p. length p = 4 \<and> list_all (\<lambda>v. 0 \<le> v \<and> v \<le> 255) p) px"
    by simp_all
  from len obtain r g b a where p: "p = [r, g, b, a]" by (rule four_bands)
  have "blend8 a 255 r = spec_over_white a r" "blend8 a 255 g = spec_over_white a g"
    "blend8 a 255 b = spec_over_white a b"
    using range p by (simp_all add: blend8_over_white)
  with Cons.IH [OF rest] p show ?case by simp
qed

lemma rgba_is_flattened_onto_white:
  assumes "im_mode img = ''RGBA''" and "well_formed img"
  shows "jpeg_background pixel_lib img =
           Inr \<lparr>im_mode = ''RGB'', im_size = im_size img, im_format = None,
                im_data = \<lparr>pixels = spec_flatten_onto_white img, palette = []\<rparr>\<rparr>"
proof -
  obtain w h where sz: "im_size img = (w, h)" by (cases "im_size img")
  from assms sz have wh: "0 \<le> w" "0 \<le> h"
    and count: "int (length (pixels (im_data img))) = w * h"
    and px: "list_all (\<lambda>p. length p = 4 \<and> list_all (\<lambda>v. 0 \<le> v \<and> v \<le> 255) p) (pixels (im_data img))"
    by (simp_all add: well_formed_def bands_of_def)
  from count have n: "nat (w * h) = length (pixels (im_data img))"
    by (metis nat_int)
  have bands: "[0 ..< 4] = [0, 1, 2, 3]" by (simp add: upt_rec)
  show ?thesis
    using assms(1) wh
    by (simp add: jpeg_background_def white_background_def image_new_def paste_mask_def
        band3_def image_paste_def pixel_lib_def pillow_new_def pillow_split_def bands_of_def
        pillow_paste_def convert_rgb_def spec_flatten_onto_white_def sz n bands
        blended_pixels [OF px])
qed

lemma la_and_p_lose_their_transparency:
  assumes "im_mode img = ''LA'' \<or> im_mode img = ''P''"
    and "0 \<le> fst (im_size img)" and "0 \<le> snd (im_size img)"
  shows "jpeg_background pixel_lib img =
           Inr \<lparr>im_mode = ''RGB'', im_size = im_size img, im_format = None,
                im_data = \<lparr>pixels = convert_rgb img, palette = []\<rparr>\<rparr>"
proof -
  obtain w h where sz: "im_size img = (w, h)" by (cases "im_size img")
  show ?thesis
    using assms
    by (auto simp: jpeg_background_def white_background_def image_new_def paste_mask_def
        image_paste_def pixel_lib_def pillow_new_def pillow_paste_def sz)
qed

text \<open>
  With a library whose encoders take RGB only, an image of a mode with alpha that the
  code does not list is handed to the encoder as it is, and the save raises.
\<close>

lemma jpeg_save_of_unlisted_mode:
  "save_step rgb_only_lib jpg_settings
     \<lparr>im_mode = ''PA'', im_size = (2, 2), im_format = Some ''PNG'', im_data = 1\<rparr> ''JPEG'' ''/out/a.jpg'' =
   Inl OSError"
  by (simp add: save_step_def jpeg_background_def image_save_def rgb_only_lib_def)

text \<open>
  End to end with that library: a file that opens as an RGBA image is converted to JPEG,
  and fails when the format is kept.
\<close>

lemma alpha_image_to_jpeg:
  "optimize_image rgb_only_lib ''/in/a.png'' jpg_settings = Inr True"
  "optimize_image rgb_only_lib ''/in/a.png'' (jpg_settings\<lparr>convert_format := ''original''\<rparr>) = Inr False"
  by code_simp+

section \<open>Properties of the run start\<close>

lemma finish_optimization_dialogs:
  "dialogs (finish_optimization s f a) = dialogs a @ [d] \<Longrightarrow>
     (\<exists>msg. d = showinfo ''Optimization Complete'' msg) \<or> (\<exists>msg. d = showerror ''Optimization Failed'' msg)"
  by (auto simp: finish_optimization_def Let_def split: if_splits)

text \<open>
  When the test of the code fails, that is when the selection is empty, or
  \<^verbatim>\<open>os.path.exists\<close> is false of the output directory and \<^verbatim>\<open>os.makedirs\<close> raises an
  \<^verbatim>\<open>OSError\<close>, \<^verbatim>\<open>start_optimization\<close> returns before \<^verbatim>\<open>processing\<close> is set.  The flag, the
  buttons, the progress and the status are as before, no worker thread is started, and
  exactly one dialog is shown: the warning for the empty selection or the error with the
  text of the \<^verbatim>\<open>OSError\<close>, neither of which is a dialog of \<^verbatim>\<open>finish_optimization\<close>, where
  the outcome of the items is reported.
\<close>

lemma start_rejected_when_the_test_fails:
  assumes "heap app (selected_files app) = [] \<or>
           (\<not> path_exists pf (output_dir_var (default_output_dir app)) \<and>
            makedirs pf (output_dir_var (default_output_dir app)) = Some (OSError, msg))"
  shows "snd (start_optimization pf app) = None \<and>
         processing (fst (start_optimization pf app)) = processing app \<and>
         threads (fst (start_optimization pf app)) = threads app \<and>
         optimize_btn (fst (start_optimization pf app)) = optimize_btn app \<and>
         cancel_btn (fst (start_optimization pf app)) = cancel_btn app \<and>
         progress_var (fst (start_optimization pf app)) = progress_var app \<and>
         status_var (fst (start_optimization pf app)) = status_var app \<and>
         (\<exists>d. dialogs (fst (start_optimization pf app)) = dialogs app @ [d] \<and>
              d = (if heap app (selected_files app) = []
                   then showwarning ''No Files Selected'' ''Please select at least one image to optimize.''
                   else showerror ''Error'' (''Could not create output directory: '' @ msg)) \<and>
              (\<forall>s f a. dialogs (finish_optimization s f a) \<noteq> dialogs a @ [d]))"
proof (cases "heap app (selected_files app) = []")
  case True
  have "\<And>s f a. dialogs (finish_optimization s f a) \<noteq>
          dialogs a @ [showwarning ''No Files Selected'' ''Please select at least one image to optimize.'']"
    using finish_optimization_dialogs by blast
  with True show ?thesis by (simp add: start_optimization_def)
next
  case False
  with assms have fails: "\<not> path_exists pf (output_dir_var (default_output_dir app))"
      "makedirs pf (output_dir_var (default_output_dir app)) = Some (OSError, msg)"
    by simp_all
  have "\<And>s f a. dialogs (finish_optimization s f a) \<noteq>
          dialogs a @ [showerror ''Error'' (''Could not create output directory: '' @ msg)]"
    using finish_optimization_dialogs by fastforce
  with False fails show ?thesis
    by (simp add: start_optimization_def Let_def default_output_dir_def)
qed

lemma start_rejected_examples:
  "dialogs (fst (start_optimization fs_ready init_app)) =
     [showwarning ''No Files Selected'' ''Please select at least one image to optimize.'']"
  "threads (fst (start_optimization fs_ready init_app)) = []"
  "dialogs (fst (start_optimization fs_readonly two_selected)) =
     [showerror ''Error'' ''Could not create output directory: [Errno 13] Permission denied'']"
  "threads (fst (start_optimization fs_readonly two_selected)) = []"
  "\<not> processing (fst (start_optimization fs_readonly two_selected))"
  by (simp_all add: start_optimization_def init_app_def two_selected_def select_files_def
      update_files_list_def default_output_dir_def fs_readonly_def Let_def)

text \<open>
  Claim C8 says that a run is rejected before it starts when the selection is empty or
  the output directory does not exist and cannot be created.  The code tests
  \<^verbatim>\<open>os.path.exists\<close>, which is also true of a regular file, and calls \<^verbatim>\<open>os.makedirs\<close> only
  when it is false.  With one file selected and the path of the regular file
  \<^verbatim>\<open>/in/notes.txt\<close> in the field of the output directory, there is no directory of that
  name and it cannot be created, and yet \<^verbatim>\<open>start_optimization\<close> shows no dialog, sets
  \<^verbatim>\<open>processing\<close>, disables the start button and starts the worker.  The worker visits the
  file, whose save fails under a path through a regular file, counts it as failed and
  posts the counters, and \<^verbatim>\<open>finish_optimization\<close> reports the failure of the items.
\<close>

theorem run_starts_with_a_file_as_output_directory:
  "heap file_as_output_dir (selected_files file_as_output_dir) = [''/in/a.png''] \<and>
   output_dir_var file_as_output_dir = ''/in/notes.txt'' \<and>
   \<not> isdir fs_with_a_file ''/in/notes.txt'' \<and>
   makedirs fs_with_a_file ''/in/notes.txt'' = Some (OSError, ''[Errno 17] File exists'') \<and>
   (let started = fst (start_optimization fs_with_a_file file_as_output_dir) in
      processing started \<and> optimize_btn started = DISABLED \<and> dialogs started = [] \<and>
      map fst (threads started) = [selected_files file_as_output_dir] \<and>
      (case process_images (\<lambda>i. no_directory_lib) [] (fst (hd (threads started)))
              (snd (hd (threads started))) started of
         (app, w, fin) \<Rightarrow>
           visited w = [''/in/a.png''] \<and> processed w = 1 \<and> successful w = 0 \<and> failed w = 1 \<and>
           fin = Exhausted \<and>
           (case posted (app, w, fin) of
              None \<Rightarrow> False
            | Some ev \<Rightarrow>
                dialogs (handle ev app) =
                  [showerror ''Optimization Failed''
                     (''Failed to optimize any of the 1 images.'' @ [CHR 0x0A] @
                      ''Check the console for error details.'')])))"
  by code_simp






section \<open>Properties of the worker loop\<close>

lemma iteration_counts:
  assumes "iteration lib settings i file_path app w = Inr (app2, w2)"
  shows "processed w2 = processed w + 1"
    and "successful w2 + failed w2 = successful w + failed w + 1"
    and "visited w2 = visited w @ [file_path]"
    and "total_files w2 = total_files w"
    and "heap app2 = heap app"
    and "processing app2 = processing app"
    and "cancel_btn app2 = cancel_btn app"
  using assms
  by (auto simp: iteration_def counted_def Let_def split: if_splits sum.splits option.splits)

text \<open>
  An iteration that raises leaves the total, the list and the flag as they were, and has
  handed the file to \<^verbatim>\<open>optimize_image\<close>.  When the \<^verbatim>\<open>print\<close> of the handler raised, the
  failure is counted and \<^verbatim>\<open>processed\<close> is not; when the division raised, both are.
\<close>

lemma iteration_raises:
  assumes "iteration lib settings i file_path app w = Inl (raised, app2, w2)"
  shows "total_files w2 = total_files w"
    and "heap app2 = heap app"
    and "processing app2 = processing app"
    and "visited w2 = visited w @ [file_path]"
    and "(processed w2 = processed w \<and> successful w2 + failed w2 = successful w + failed w + 1) \<or>
         (processed w2 = processed w + 1 \<and> successful w2 + failed w2 = successful w + failed w + 1 \<and>
          total_files w = 0 \<and> raised = ZeroDivisionError)"
  using assms
  by (auto simp: iteration_def counted_def Let_def split: if_splits sum.splits option.splits)

text \<open>
  An iteration returns when the list was not empty at the start of the run and either
  \<^verbatim>\<open>optimize_image\<close> returns or the standard output takes the message of the handler.
\<close>

lemma iteration_returns:
  assumes "total_files w \<noteq> 0" and "\<And>text. stdout_print lib text = None"
  shows "\<exists>app2 w2. iteration lib settings i file_path app w = Inr (app2, w2)"
  using assms
  by (auto simp: iteration_def counted_def Let_def split: if_splits sum.splits option.splits)

lemma iteration_raises_only_from_print:
  assumes "total_files w \<noteq> 0"
    and "iteration lib settings i file_path app w = Inl (raised, app2, w2)"
  shows "\<exists>e text. optimize_image lib file_path settings = Inl e \<and>
           stdout_print lib text = Some raised"
  using assms
  by (auto simp: iteration_def counted_def Let_def split: if_splits sum.splits option.splits)

text \<open>
  At the end of a loop that was not ended by an exception, \<^verbatim>\<open>processed\<close> is the sum of
  \<^verbatim>\<open>successful\<close> and \<^verbatim>\<open>failed\<close> and the number of files handed to \<^verbatim>\<open>optimize_image\<close>.
\<close>

lemma worker_loop_counts:
  assumes "worker_loop libs settings files sched i app w = (app', w', fin)"
    and "processed w = int i" and "successful w + failed w = processed w"
    and "length (visited w) = i"
  shows "total_files w' = total_files w \<and>
         ((\<forall>e. fin \<noteq> Raised e) \<longrightarrow>
            successful w' + failed w' = processed w' \<and>
            int (length (visited w')) = processed w') \<and>
         (\<forall>k. fin = Cancelled k \<longrightarrow>
            processed w' = int k \<and> \<not> processing app' \<and> k < length (heap app' files))"
  using assms
proof (induction libs settings files sched i app w rule: worker_loop.induct)
  case (1 libs settings files sched i app w)
  define app1 where "app1 = handle_all (case sched of [] \<Rightarrow> [] | evs # _ \<Rightarrow> evs) app"
  note run = "1.prems"(1) [unfolded worker_loop.simps [of libs settings files sched i app w],
      folded app1_def, unfolded Let_def]
  show ?case
  proof (cases "i < length (heap app1 files)")
    case False
    with run "1.prems" show ?thesis by auto
  next
    case more: True
    show ?thesis
    proof (cases "processing app1")
      case False
      with run more "1.prems" show ?thesis by auto
    next
      case True
      show ?thesis
      proof (cases "iteration (libs i) settings i (heap app1 files ! i) app1 w")
        case (Inl r)
        obtain raised app2 w2 where r: "r = (raised, app2, w2)" by (cases r)
        note it = Inl [unfolded r]
        from run more True it have "app' = app2" "w' = w2" "fin = Raised raised" by simp_all
        with iteration_raises(1) [OF it] show ?thesis by simp
      next
        case (Inr r)
        obtain app2 w2 where r: "r = (app2, w2)" by (cases r)
        note it = Inr [unfolded r]
        from run more True it
        have rec: "worker_loop libs settings files (tl sched) (Suc i) app2 w2 = (app', w', fin)"
          by simp
        note c = iteration_counts [OF it]
        have "total_files w' = total_files w2 \<and>
              ((\<forall>e. fin \<noteq> Raised e) \<longrightarrow>
                 successful w' + failed w' = processed w' \<and>
                 int (length (visited w')) = processed w') \<and>
              (\<forall>k. fin = Cancelled k \<longrightarrow>
                 processed w' = int k \<and> \<not> processing app' \<and> k < length (heap app' files))"
        proof (rule "1.IH" [OF app1_def more _ it refl rec])
          show "\<not> \<not> processing app1" using True by simp
          show "processed w2 = int (Suc i)" using c(1) "1.prems"(2) by simp
          show "successful w2 + failed w2 = processed w2" using c(1,2) "1.prems"(3) by simp
          show "length (visited w2) = Suc i" using c(3) "1.prems"(4) by simp
        qed
        with c(4) show ?thesis by simp
      qed
    qed
  qed
qed

text \<open>
  With a standard output in ASCII and a file of that name which Pillow cannot decode, the
  \<^verbatim>\<open>print\<close> of \<^verbatim>\<open>optimize_image\<close> raises, the handler of \<^verbatim>\<open>process_images\<close> counts the
  failure, and its own \<^verbatim>\<open>print\<close> raises in turn: the thread ends with that exception
  before \<^verbatim>\<open>processed\<close> is counted, \<^verbatim>\<open>finish_optimization\<close> is not posted, and
  \<^verbatim>\<open>processing\<close> stays true.
\<close>

lemma worker_dies_in_its_handler:
  "(case process_images (\<lambda>i. ascii_console_lib) [] (fst (hd (threads accent_running)))
           (snd (hd (threads accent_running))) accent_running of
      (app, w, fin) \<Rightarrow>
        (processed w, successful w, failed w, fin, processing app,
         case posted (app, w, fin) of None \<Rightarrow> True | Some ev \<Rightarrow> False)) =
   (0, 0, 1, Raised UnicodeEncodeError, True, True)"
  by code_simp

lemma cancel_click_is_observed:
  assumes "processing app" and "cancel_btn app = NORMAL" and "i < length (heap app files)"
  shows "worker_loop libs settings files ([ClickCancel] # sched) i app w =
           (cancel_optimization app, w, Cancelled i)"
  using assms
  by (simp add: worker_loop.simps [of _ _ _ "[ClickCancel] # sched"] handle_all_def
      cancel_optimization_def)

lemma worker_loop_cancel_after:
  assumes "processing app" and "cancel_btn app = NORMAL" and "total_files w \<noteq> 0"
    and "i + k < length (heap app files)"
    and out: "\<And>j text. stdout_print (libs j) text = None"
  shows "\<exists>app' w'. worker_loop libs settings files (replicate k [] @ [ClickCancel] # rest) i app w =
           (app', w', Cancelled (i + k))"
  using assms
proof (induction k arbitrary: i app w)
  case 0
  then show ?case by (simp add: cancel_click_is_observed)
next
  case (Suc k)
  obtain app2 w2 where it: "iteration (libs i) settings i (heap app files ! i) app w = Inr (app2, w2)"
    using iteration_returns [OF Suc.prems(3) out] by blast
  note c = iteration_counts [OF it]
  have "\<exists>app' w'. worker_loop libs settings files (replicate k [] @ [ClickCancel] # rest) (Suc i) app2 w2 =
           (app', w', Cancelled (Suc i + k))"
    using Suc.prems(1-4) c out by (intro Suc.IH) simp_all
  moreover have "worker_loop libs settings files (replicate (Suc k) [] @ [ClickCancel] # rest) i app w =
      worker_loop libs settings files (replicate k [] @ [ClickCancel] # rest) (Suc i) app2 w2"
    using Suc.prems it
    by (simp add: worker_loop.simps [of _ _ _ "[] # replicate k [] @ [ClickCancel] # rest" i]
        handle_all_def)
  ultimately show ?case by simp
qed

lemma cancel_after_k_items:
  assumes "processing app" and "cancel_btn app = NORMAL" and "k < length (heap app files)"
    and out: "\<And>j text. stdout_print (libs j) text = None"
  shows "\<exists>app' w. process_images libs (replicate k [] @ [ClickCancel] # rest) files settings app =
           (app', w, Cancelled k)"
proof -
  let ?w = "\<lparr>total_files = int (length (heap app files)), processed = 0, successful = 0,
             failed = 0, visited = []\<rparr>"
  have "total_files ?w \<noteq> 0" using assms(3) by auto
  moreover have "0 + k < length (heap app files)" using assms(3) by simp
  ultimately have "\<exists>app' w'. worker_loop libs settings files (replicate k [] @ [ClickCancel] # rest) 0 app ?w =
           (app', w', Cancelled (0 + k))"
    using assms(1,2) out by (intro worker_loop_cancel_after)
  then show ?thesis by (simp add: process_images_def)
qed

text \<open>
  Claim C4.  For every run and every \<open>k\<close>: if the loop ends at the \<^verbatim>\<open>break\<close> of
  iteration \<open>k\<close>, where \<^verbatim>\<open>self.processing\<close> is found false after \<open>k\<close> items were
  processed, then no further item is processed.  \<^verbatim>\<open>processed\<close> is \<open>k\<close>, exactly \<open>k\<close>
  paths were handed to \<^verbatim>\<open>optimize_image\<close>, the successes and failures add up to \<open>k\<close> (an
  item that was not visited is not counted as failed, although items remain in the
  list), and these counts are the ones posted to \<^verbatim>\<open>finish_optimization\<close>.  A click on the
  cancel button after \<open>k\<close> items of a running application ends the loop in this way
  when the standard output takes every message (\<open>cancel_after_k_items\<close>).
\<close>

theorem cancel_stops_the_run:
  assumes "process_images libs sched files settings app = (app', w, Cancelled k)"
  shows "processed w = int k \<and> length (visited w) = k \<and>
         successful w + failed w = int k \<and>
         k < length (heap app' files) \<and> \<not> processing app' \<and>
         posted (app', w, Cancelled k) = Some (WorkerDone (successful w) (failed w))"
  using worker_loop_counts [OF assms [unfolded process_images_def]]
  by (simp add: posted_def)

text \<open>
  The theorem at a run over two files in which the cancel button is clicked while the
  first file is processed.
\<close>

theorem cancel_stops_the_run_witness:
  "\<exists>app' w.
     process_images (\<lambda>i. accepting_lib) [[], [ClickCancel]] (fst (hd (threads two_running)))
       (snd (hd (threads two_running))) two_running = (app', w, Cancelled 1) \<and>
     processed w = 1 \<and> length (visited w) = 1 \<and> successful w + failed w = 1 \<and>
     posted (app', w, Cancelled 1) = Some (WorkerDone (successful w) (failed w))"
proof -
  have "snd (snd (process_images (\<lambda>i. accepting_lib) [[], [ClickCancel]]
          (fst (hd (threads two_running))) (snd (hd (threads two_running))) two_running)) =
        Cancelled 1"
    by code_simp
  then obtain app' w where
    "process_images (\<lambda>i. accepting_lib) [[], [ClickCancel]] (fst (hd (threads two_running)))
       (snd (hd (threads two_running))) two_running = (app', w, Cancelled 1)"
    by (metis prod.collapse)
  with cancel_stops_the_run [OF this] show ?thesis by auto
qed

lemma handle_all_cancel_only:
  assumes "list_all (\<lambda>e. e = ClickCancel) evs"
  shows "heap (handle_all evs app) = heap app"
    and "\<not> processing app \<Longrightarrow> \<not> processing (handle_all evs app)"
  using assms
  by (induction evs arbitrary: app)
     (auto simp: handle_all_def cancel_optimization_def)

lemma worker_loop_cancel_only:
  assumes "worker_loop libs settings files sched i app w = (app', w', fin)"
    and "list_all (list_all (\<lambda>e. e = ClickCancel)) sched"
    and "total_files w = int (length (heap app files))"
    and "processed w = int i" and "i \<le> length (heap app files)"
  shows "processed w' \<le> total_files w' \<and> (processed w' = total_files w' \<longleftrightarrow> fin = Exhausted)"
  using assms
proof (induction libs settings files sched i app w rule: worker_loop.induct)
  case (1 libs settings files sched i app w)
  define app1 where "app1 = handle_all (case sched of [] \<Rightarrow> [] | evs # _ \<Rightarrow> evs) app"
  have evs: "list_all (\<lambda>e. e = ClickCancel) (case sched of [] \<Rightarrow> [] | evs # _ \<Rightarrow> evs)"
    using "1.prems"(2) by (cases sched) simp_all
  have rest: "list_all (list_all (\<lambda>e. e = ClickCancel)) (tl sched)"
    using "1.prems"(2) by (cases sched) simp_all
  have heap1: "heap app1 = heap app"
    unfolding app1_def using evs by (rule handle_all_cancel_only)
  note run = "1.prems"(1) [unfolded worker_loop.simps [of libs settings files sched i app w],
      folded app1_def, unfolded Let_def]
  show ?case
  proof (cases "i < length (heap app1 files)")
    case False
    with run "1.prems" heap1 show ?thesis by auto
  next
    case more: True
    show ?thesis
    proof (cases "processing app1")
      case False
      with run more "1.prems" heap1 show ?thesis by auto
    next
      case True
      have nonzero: "total_files w \<noteq> 0"
        using more "1.prems"(3) heap1 by auto
      show ?thesis
      proof (cases "iteration (libs i) settings i (heap app1 files ! i) app1 w")
        case (Inl r)
        obtain raised app2 w2 where r: "r = (raised, app2, w2)" by (cases r)
        note it = Inl [unfolded r]
        from run more True it have fin: "app' = app2" "w' = w2" "fin = Raised raised" by simp_all
        from iteration_raises(1,5) [OF it] nonzero
        have "total_files w2 = total_files w" "processed w2 = processed w" by auto
        with fin more "1.prems"(3,4) heap1 show ?thesis by simp
      next
        case (Inr r)
        obtain app2 w2 where r: "r = (app2, w2)" by (cases r)
        note it = Inr [unfolded r]
        from run more True it
        have rec: "worker_loop libs settings files (tl sched) (Suc i) app2 w2 = (app', w', fin)"
          by simp
        note c = iteration_counts [OF it]
        show ?thesis
        proof (rule "1.IH" [OF app1_def more _ it refl rec rest])
          show "\<not> \<not> processing app1" using True by simp
          show "total_files w2 = int (length (heap app2 files))"
            using c(4,5) "1.prems"(3) heap1 by simp
          show "processed w2 = int (Suc i)" using c(1) "1.prems"(4) by simp
          show "Suc i \<le> length (heap app2 files)" using more c(5) by simp
        qed
      qed
    qed
  qed
qed

lemma run_with_cancellation_only:
  assumes "process_images libs sched files settings app = (app', w, fin)"
    and "list_all (list_all (\<lambda>e. e = ClickCancel)) sched"
  shows "((\<forall>e. fin \<noteq> Raised e) \<longrightarrow> successful w + failed w = processed w) \<and>
         processed w \<le> total_files w \<and>
         (processed w = total_files w \<longleftrightarrow> fin = Exhausted)"
  using worker_loop_counts [OF assms(1) [unfolded process_images_def]]
    worker_loop_cancel_only [OF assms(1) [unfolded process_images_def] assms(2)]
  by simp

text \<open>
  Claim C2 says that at every iteration \<^verbatim>\<open>processed\<close> is the sum of \<^verbatim>\<open>successful\<close> and
  \<^verbatim>\<open>failed\<close> and at most the total number of files, which it equals at the end exactly
  when the run was not cancelled.  The sum holds after every iteration and at the end of
  every loop that no exception ended (\<open>iteration_counts\<close>, \<open>worker_loop_counts\<close>), and so
  do the bound and the equivalence as long as the control context does nothing but cancel
  (\<open>run_with_cancellation_only\<close>).  In general the bound does not hold: the worker
  iterates over the very list object that \<^verbatim>\<open>selected_files\<close> refers to,
  \<^verbatim>\<open>total_files\<close> is its length when the thread starts, and \<^verbatim>\<open>select_folder\<close> extends
  that object in place.  With two files selected and a folder holding one image added
  while the first file is processed, the loop visits three files: \<^verbatim>\<open>processed\<close> is 3,
  \<^verbatim>\<open>total_files\<close> is 2, and the run ends without a cancellation.
\<close>

theorem folder_added_during_run:
  "(case process_images (\<lambda>i. undecodable_lib)
           [[], [SelectFolder ''/more'' [(''/more'', [''c.png'', ''notes.txt''])]]]
           (fst (hd (threads two_running))) (snd (hd (threads two_running))) two_running of
      (app, w, fin) \<Rightarrow> (total_files w, processed w, successful w, failed w, visited w, fin)) =
   (2, 3, 0, 3, [''/in/a.png'', ''/in/b.png'', ''/more/c.png''], Exhausted)"
  by code_simp

end
